theory Spec2Isabelle
  imports Complex_Main "HOL-Library.AList" "HOL-Library.Monad_Syntax"
begin

section \<open>Data model\<close>

text \<open>
  The calibrator of \<^verbatim>\<open>camera_calibrator.cc\<close> works on a \<^verbatim>\<open>theia::Reconstruction\<close>:
  views with a camera each, tracks (the board points) and observations. A double is
  read as the real number it denotes; the members \<^verbatim>\<open>camera_model_\<close>,
  \<^verbatim>\<open>min_num_view_\<close>, ... lose their trailing underscore, which an Isabelle name
  cannot end with.
\<close>

type_synonym ViewId = nat
type_synonym TrackId = int
type_synonym Vector2d = "real \<times> real"
type_synonym Vector3d = "real \<times> real \<times> real"
type_synonym Vector4d = "real \<times> real \<times> real \<times> real"
type_synonym Matrix3d = "Vector3d \<times> Vector3d \<times> Vector3d"

datatype CameraIntrinsicsModelType =
  PINHOLE | PINHOLE_RADIAL_TANGENTIAL | FISHEYE
  | DIVISION_UNDISTORTION | DOUBLE_SPHERE | EXTENDED_UNIFIED

text \<open>
  \<^verbatim>\<open>theia::StringToCameraIntrinsicsModelType\<close>: the six names the sources compare
  \<^verbatim>\<open>camera_model_\<close> and \<^verbatim>\<open>intrinsic_type\<close> with; any other string is fatal there.
\<close>

definition StringToCameraIntrinsicsModelType :: "string \<Rightarrow> CameraIntrinsicsModelType option" where
  "StringToCameraIntrinsicsModelType s =
     (if s = ''PINHOLE'' then Some PINHOLE
      else if s = ''PINHOLE_RADIAL_TANGENTIAL'' then Some PINHOLE_RADIAL_TANGENTIAL
      else if s = ''FISHEYE'' then Some FISHEYE
      else if s = ''DIVISION_UNDISTORTION'' then Some DIVISION_UNDISTORTION
      else if s = ''DOUBLE_SPHERE'' then Some DOUBLE_SPHERE
      else if s = ''EXTENDED_UNIFIED'' then Some EXTENDED_UNIFIED
      else None)"

text \<open>
  The entries of a camera's parameter vector are named as the sources name them
  (\<^verbatim>\<open>InternalParametersIndex\<close> of each model); a camera has one model, so one
  function from names to values stands for its vector.
\<close>

datatype InternalParametersIndex =
  FOCAL_LENGTH | ASPECT_RATIO | SKEW | PRINCIPAL_POINT_X | PRINCIPAL_POINT_Y
  | RADIAL_DISTORTION_1 | RADIAL_DISTORTION_2 | RADIAL_DISTORTION_3 | RADIAL_DISTORTION_4
  | TANGENTIAL_DISTORTION_1 | TANGENTIAL_DISTORTION_2
  | XI | ALPHA | BETA

record Camera =
  model_type :: CameraIntrinsicsModelType
  image_size :: "int \<times> int"
  intrinsics :: "InternalParametersIndex \<Rightarrow> real"
  position :: Vector3d
  orientation :: Matrix3d

definition SetImageSize :: "int \<Rightarrow> int \<Rightarrow> Camera \<Rightarrow> Camera" where
  "SetImageSize w h cam = cam\<lparr>image_size := (w, h)\<rparr>"

definition SetParameter :: "InternalParametersIndex \<Rightarrow> real \<Rightarrow> Camera \<Rightarrow> Camera" where
  "SetParameter i v cam = cam\<lparr>intrinsics := (intrinsics cam)(i := v)\<rparr>"

definition SetPrincipalPoint :: "real \<Rightarrow> real \<Rightarrow> Camera \<Rightarrow> Camera" where
  "SetPrincipalPoint x y cam =
     SetParameter PRINCIPAL_POINT_Y y (SetParameter PRINCIPAL_POINT_X x cam)"

definition SetFocalLength :: "real \<Rightarrow> Camera \<Rightarrow> Camera" where
  "SetFocalLength f cam = SetParameter FOCAL_LENGTH f cam"

definition SetPosition :: "Vector3d \<Rightarrow> Camera \<Rightarrow> Camera" where
  "SetPosition p cam = cam\<lparr>position := p\<rparr>"

definition SetOrientationFromRotationMatrix :: "Matrix3d \<Rightarrow> Camera \<Rightarrow> Camera" where
  "SetOrientationFromRotationMatrix r cam = cam\<lparr>orientation := r\<rparr>"

definition FocalLength :: "Camera \<Rightarrow> real" where
  "FocalLength cam = intrinsics cam FOCAL_LENGTH"

definition PrincipalPointX :: "Camera \<Rightarrow> real" where
  "PrincipalPointX cam = intrinsics cam PRINCIPAL_POINT_X"

definition PrincipalPointY :: "Camera \<Rightarrow> real" where
  "PrincipalPointY cam = intrinsics cam PRINCIPAL_POINT_Y"

record View =
  camera :: Camera
  estimated :: bool
  timestamp :: real
  group_id :: nat
  features :: "(TrackId \<times> Vector2d) list"

record Reconstruction =
  views :: "(ViewId \<times> View) list"
  next_view_id :: ViewId
  tracks :: "(TrackId \<times> Vector4d) list"

definition NumViews :: "Reconstruction \<Rightarrow> nat" where
  "NumViews d = length (views d)"

definition ViewIds :: "Reconstruction \<Rightarrow> ViewId list" where
  "ViewIds d = map fst (views d)"

definition TrackIds :: "Reconstruction \<Rightarrow> TrackId list" where
  "TrackIds d = map fst (tracks d)"

definition View_of :: "Reconstruction \<Rightarrow> ViewId \<Rightarrow> View option" where
  "View_of d v = map_of (views d) v"

definition Track_of :: "Reconstruction \<Rightarrow> TrackId \<Rightarrow> Vector4d option" where
  "Track_of d t = map_of (tracks d) t"

definition RemoveView :: "ViewId \<Rightarrow> Reconstruction \<Rightarrow> Reconstruction" where
  "RemoveView v d = d\<lparr>views := filter (\<lambda>p. fst p \<noteq> v) (views d)\<rparr>"

subsection \<open>Bundle adjustment options\<close>

datatype OptimizeIntrinsicsType =
  Opt_FOCAL_LENGTH | Opt_ASPECT_RATIO | Opt_SKEW | Opt_PRINCIPAL_POINTS
  | Opt_RADIAL_DISTORTION | Opt_TANGENTIAL_DISTORTION

datatype LossFunctionType = TRIVIAL | HUBER | SOFTLONE | CAUCHY | ARCTAN | TUKEY

text \<open>
  \<^verbatim>\<open>intrinsics_to_optimize\<close> is a bit mask in the source; the set of its flags here,
  \<^verbatim>\<open>|=\<close> being union.
\<close>

record BundleAdjustmentOptions =
  verbose :: bool
  loss_function_type :: LossFunctionType
  robust_loss_width :: real
  num_threads :: nat
  constant_camera_orientation :: bool
  constant_camera_position :: bool
  intrinsics_to_optimize :: "OptimizeIntrinsicsType set"
  use_homogeneous_point_parametrization :: bool

subsection \<open>The calibrator and what it calls\<close>

record RansacParameters =
  failure_probability :: real
  use_mle :: bool
  max_iterations :: nat
  min_iterations :: nat
  error_thresh :: real

record FeatureCorrespondence2D3D =
  feature :: Vector2d
  world_point :: Vector3d

text \<open>
  What an initialiser hands back through its reference arguments, with its return value
  \<^verbatim>\<open>success_init\<close>. The pinhole initialiser has no distortion argument.
\<close>

record PinholeInitResult =
  success_init :: bool
  rotation :: Matrix3d
  init_position :: Vector3d
  focal_length :: real

record InitResult = PinholeInitResult +
  radial_distortion :: real

record CameraCalibrator =
  camera_model :: string
  optimize_board_pts :: bool
  min_num_view :: nat
  grid_size :: real
  is_verbose :: bool
  ransac_params :: RansacParameters
  recon_calib_dataset :: Reconstruction

text \<open>
  What the calibrator calls and does not define: the solver behind
  \<^verbatim>\<open>theia::BundleAdjustViews\<close> and \<^verbatim>\<open>theia::BundleAdjustTracks\<close> (it gives a view its
  refined camera and a track its refined point, and adds or removes nothing), the two
  RANSAC initialisers of \<^verbatim>\<open>utils/intrinsic_initializer.h\<close>, the camera a new
  \<^verbatim>\<open>theia::View\<close> starts with, the parameter values a camera has after its model
  type was set, \<^verbatim>\<open>io::scene_points_to_calib_dataset\<close> for the scene at hand, the
  default-constructed \<^verbatim>\<open>theia::BundleAdjustmentOptions\<close>,
  \<^verbatim>\<open>std::thread::hardware_concurrency()\<close> and the default of \<^verbatim>\<open>AddView\<close>'s last
  argument, which the header gives. They are parameters of the model. So is the
  arithmetic of doubles where a decision of the calibrator turns on its result:
  \<open>to_double\<close> rounds a real to the double the platform stores for it, and
  \<open>difference_norm a b\<close> is what Eigen computes for \<^verbatim>\<open>(a - b).norm()\<close>.

  \<open>view_reproj_error\<close>: Modelled from the spec: \<^verbatim>\<open>utils::GetReprojErrorOfView\<close> is
  declared in \<^verbatim>\<open>utils/utils.h\<close> and its body is not among the sources. By section 4.5
  of the specification the error of a view is the mean, over that view's observations,
  of the pixel distance between the observed and the re-projected target point under
  the current parameters: a function of the target points and of the view itself.
\<close>

record Collaborators =
  new_camera :: Camera
  create_intrinsics :: "CameraIntrinsicsModelType \<Rightarrow> Camera \<Rightarrow> InternalParametersIndex \<Rightarrow> real"
  ba_views_solver :: "BundleAdjustmentOptions \<Rightarrow> ViewId list \<Rightarrow> Reconstruction \<Rightarrow> ViewId \<Rightarrow> Camera"
  ba_tracks_solver :: "BundleAdjustmentOptions \<Rightarrow> TrackId list \<Rightarrow> Reconstruction \<Rightarrow> TrackId \<Rightarrow> Vector4d"
  view_reproj_error :: "(TrackId \<times> Vector4d) list \<Rightarrow> View \<Rightarrow> real"
  initialize_pinhole_camera ::
    "FeatureCorrespondence2D3D list \<Rightarrow> RansacParameters \<Rightarrow> PinholeInitResult"
  initialize_radial_undistortion_camera ::
    "FeatureCorrespondence2D3D list \<Rightarrow> RansacParameters \<Rightarrow> int \<times> int \<Rightarrow> InitResult"
  scene_points_to_calib_dataset :: "Reconstruction \<Rightarrow> Reconstruction"
  default_ba_options :: BundleAdjustmentOptions
  hardware_concurrency :: nat
  default_group_id :: nat
  to_double :: "real \<Rightarrow> real"
  difference_norm :: "Vector3d \<Rightarrow> Vector3d \<Rightarrow> real"

definition SetCameraIntrinsicsModelType ::
  "Collaborators \<Rightarrow> CameraIntrinsicsModelType \<Rightarrow> Camera \<Rightarrow> Camera" where
  "SetCameraIntrinsicsModelType X t cam =
     cam\<lparr>model_type := t, intrinsics := create_intrinsics X t cam\<rparr>"

definition BundleAdjustViews ::
  "Collaborators \<Rightarrow> BundleAdjustmentOptions \<Rightarrow> ViewId list \<Rightarrow> Reconstruction \<Rightarrow> Reconstruction" where
  "BundleAdjustViews X opts ids d =
     d\<lparr>views := map (\<lambda>(i, v). if i \<in> set ids
                               then (i, v\<lparr>camera := ba_views_solver X opts ids d i\<rparr>)
                               else (i, v)) (views d)\<rparr>"

definition BundleAdjustTracks ::
  "Collaborators \<Rightarrow> BundleAdjustmentOptions \<Rightarrow> TrackId list \<Rightarrow> Reconstruction \<Rightarrow> Reconstruction" where
  "BundleAdjustTracks X opts ids d =
     d\<lparr>tracks := map (\<lambda>(t, p). if t \<in> set ids
                                then (t, ba_tracks_solver X opts ids d t)
                                else (t, p)) (tracks d)\<rparr>"

definition GetReprojErrorOfView :: "Collaborators \<Rightarrow> Reconstruction \<Rightarrow> ViewId \<Rightarrow> real" where
  "GetReprojErrorOfView X d v =
     (case View_of d v of None \<Rightarrow> 0 | Some vw \<Rightarrow> view_reproj_error X (tracks d) vw)"

section \<open>View pruning\<close>

text \<open>
  \<^verbatim>\<open>RemoveViewsReprojError\<close>, lines 59 to 75. The first loop fills the
  \<^verbatim>\<open>std::map ids_to_remove\<close> (an association list updated by key); the second loop
  walks it in key order and removes each view.
\<close>

fun collect_ids_to_remove ::
  "Collaborators \<Rightarrow> real \<Rightarrow> Reconstruction \<Rightarrow> ViewId list \<Rightarrow> (ViewId \<times> real) list
     \<Rightarrow> (ViewId \<times> real) list" where
  "collect_ids_to_remove X max_reproj_error d [] ids_to_remove = ids_to_remove"
| "collect_ids_to_remove X max_reproj_error d (v_id # rest) ids_to_remove =
     (let view_reproj_error = GetReprojErrorOfView X d v_id
      in collect_ids_to_remove X max_reproj_error d rest
           (if view_reproj_error > max_reproj_error
            then AList.update v_id view_reproj_error ids_to_remove
            else ids_to_remove))"

definition RemoveViewsReprojError :: "Collaborators \<Rightarrow> real \<Rightarrow> Reconstruction \<Rightarrow> Reconstruction" where
  "RemoveViewsReprojError X max_reproj_error d =
     foldl (\<lambda>d' v_id. RemoveView (fst v_id) d') d
       (sort_key fst (collect_ids_to_remove X max_reproj_error d (ViewIds d) []))"

section \<open>The staged optimizer\<close>

text \<open>
  \<^verbatim>\<open>RunCalibration\<close>, lines 131 to 219. The calls it makes to the solver and to the
  pruning sweep are returned as a list, in the order made, beside the success flag and
  the calibrator with its dataset as the calls left it.
\<close>

datatype Call =
  BundleAdjustViews_call BundleAdjustmentOptions "ViewId list"
  | RemoveViewsReprojError_call real
  | BundleAdjustTracks_call BundleAdjustmentOptions "TrackId list"

definition initial_ba_options :: "Collaborators \<Rightarrow> BundleAdjustmentOptions" where
  "initial_ba_options X =
     (default_ba_options X)\<lparr>verbose := True, loss_function_type := HUBER,
        robust_loss_width := 1.345, num_threads := hardware_concurrency X\<rparr>"

definition stage1_options :: "string \<Rightarrow> BundleAdjustmentOptions \<Rightarrow> BundleAdjustmentOptions" where
  "stage1_options cm ba_options =
     ba_options\<lparr>constant_camera_orientation := False, constant_camera_position := False,
        intrinsics_to_optimize :=
          (if cm \<noteq> ''PINHOLE'' then {Opt_FOCAL_LENGTH} \<union> {Opt_RADIAL_DISTORTION}
           else {Opt_FOCAL_LENGTH})\<rparr>"

definition stage2_options :: "BundleAdjustmentOptions \<Rightarrow> BundleAdjustmentOptions" where
  "stage2_options ba_options =
     ba_options\<lparr>constant_camera_orientation := True, constant_camera_position := True,
        intrinsics_to_optimize := {Opt_PRINCIPAL_POINTS}\<rparr>"

definition stage3_options :: "string \<Rightarrow> BundleAdjustmentOptions \<Rightarrow> BundleAdjustmentOptions" where
  "stage3_options cm ba_options =
     ba_options\<lparr>constant_camera_orientation := False, constant_camera_position := False,
        intrinsics_to_optimize :=
          (let base = {Opt_PRINCIPAL_POINTS} \<union> {Opt_FOCAL_LENGTH} \<union> {Opt_ASPECT_RATIO}
           in if cm = ''PINHOLE'' then base \<union> {Opt_RADIAL_DISTORTION}
              else if cm = ''PINHOLE_RADIAL_TANGENTIAL'' then base \<union> {Opt_TANGENTIAL_DISTORTION}
              else base)\<rparr>"

definition board_options :: "BundleAdjustmentOptions \<Rightarrow> BundleAdjustmentOptions" where
  "board_options ba_options =
     ba_options\<lparr>use_homogeneous_point_parametrization := True, verbose := True\<rparr>"

definition RunCalibration ::
  "Collaborators \<Rightarrow> CameraCalibrator \<Rightarrow> bool \<times> CameraCalibrator \<times> Call list" where
  "RunCalibration X c =
     (let d0 = recon_calib_dataset c in
      if NumViews d0 < min_num_view c then (False, c, [])
      else
        let ba1 = stage1_options (camera_model c) (initial_ba_options X);
            d1 = BundleAdjustViews X ba1 (ViewIds d0) d0;
            d2 = RemoveViewsReprojError X 5.0 d1;
            ba2 = stage2_options ba1;
            d3 = BundleAdjustViews X ba2 (ViewIds d2) d2;
            calls3 = [BundleAdjustViews_call ba1 (ViewIds d0),
                      RemoveViewsReprojError_call 5.0,
                      BundleAdjustViews_call ba2 (ViewIds d2)]
        in if NumViews d3 < min_num_view c
           then (False, c\<lparr>recon_calib_dataset := d3\<rparr>, calls3)
           else
             let ba3 = stage3_options (camera_model c) ba2;
                 d4 = BundleAdjustViews X ba3 (ViewIds d3) d3;
                 d5 = RemoveViewsReprojError X 2.0 d4;
                 calls5 = calls3 @ [BundleAdjustViews_call ba3 (ViewIds d3),
                                    RemoveViewsReprojError_call 2.0]
             in if NumViews d5 < min_num_view c
                then (False, c\<lparr>recon_calib_dataset := d5\<rparr>, calls5)
                else if optimize_board_pts c
                then
                  let ba4 = board_options ba3;
                      d6 = BundleAdjustTracks X ba4 (TrackIds d5) d5;
                      d7 = BundleAdjustViews X ba4 (ViewIds d6) d6
                  in (True, c\<lparr>recon_calib_dataset := d7\<rparr>,
                      calls5 @ [BundleAdjustTracks_call ba4 (TrackIds d5),
                                BundleAdjustViews_call ba4 (ViewIds d6)])
                else (True, c\<lparr>recon_calib_dataset := d5\<rparr>, calls5))"

definition after_stage1 :: "Collaborators \<Rightarrow> CameraCalibrator \<Rightarrow> Reconstruction" where
  \<comment> \<open>the dataset after the first solver call and the sweep at 5.0 px\<close>
  "after_stage1 X c =
     RemoveViewsReprojError X 5.0
       (BundleAdjustViews X (stage1_options (camera_model c) (initial_ba_options X))
          (ViewIds (recon_calib_dataset c)) (recon_calib_dataset c))"

definition after_stage2 :: "Collaborators \<Rightarrow> CameraCalibrator \<Rightarrow> Reconstruction" where
  \<comment> \<open>then after the principal-point solver call\<close>
  "after_stage2 X c =
     BundleAdjustViews X
       (stage2_options (stage1_options (camera_model c) (initial_ba_options X)))
       (ViewIds (after_stage1 X c)) (after_stage1 X c)"

definition after_stage3 :: "Collaborators \<Rightarrow> CameraCalibrator \<Rightarrow> Reconstruction" where
  \<comment> \<open>then after the full solver call and the sweep at 2.0 px\<close>
  "after_stage3 X c =
     RemoveViewsReprojError X 2.0
       (BundleAdjustViews X
          (stage3_options (camera_model c)
             (stage2_options (stage1_options (camera_model c) (initial_ba_options X))))
          (ViewIds (after_stage2 X c)) (after_stage2 X c))"

section \<open>Adding views and observations\<close>

datatype Fault =
  NullPointerDereference | IndexOutOfRange | FatalLog | JsonException

definition update_view :: "ViewId \<Rightarrow> (View \<Rightarrow> View) \<Rightarrow> Reconstruction \<Rightarrow> Reconstruction" where
  \<comment> \<open>a write through the pointer \<^verbatim>\<open>MutableView(view_id)\<close>\<close>
  "update_view v f d =
     d\<lparr>views := map (\<lambda>(i, vw). if i = v then (i, f vw) else (i, vw)) (views d)\<rparr>"

text \<open>
  \<^verbatim>\<open>theia::Reconstruction::AddView\<close> and \<^verbatim>\<open>AddObservation\<close>, as section 3 of the
  specification describes the dataset: a new view gets an id no view has, and an
  observation needs both its ends and is the only one of its view and target point.
  The view's name (the microsecond timestamp in decimal) is not kept.
\<close>

definition Reconstruction_AddView ::
  "Collaborators \<Rightarrow> nat \<Rightarrow> real \<Rightarrow> Reconstruction \<Rightarrow> ViewId \<times> Reconstruction" where
  "Reconstruction_AddView X g timestamp_s d =
     (next_view_id d,
      d\<lparr>views := views d @
           [(next_view_id d,
             \<lparr>camera = new_camera X, estimated = False, timestamp = timestamp_s,
              group_id = g, features = []\<rparr>)],
        next_view_id := Suc (next_view_id d)\<rparr>)"

definition Reconstruction_AddObservation ::
  "ViewId \<Rightarrow> TrackId \<Rightarrow> Vector2d \<Rightarrow> Reconstruction \<Rightarrow> bool \<times> Reconstruction" where
  "Reconstruction_AddObservation v t corner d =
     (case View_of d v of
        None \<Rightarrow> (False, d)
      | Some vw \<Rightarrow>
          if Track_of d t = None \<or> t \<in> fst ` set (features vw) then (False, d)
          else (True, update_view v (\<lambda>vw. vw\<lparr>features := features vw @ [(t, corner)]\<rparr>) d))"

definition AddObservation ::
  "ViewId \<Rightarrow> TrackId \<Rightarrow> Vector2d \<Rightarrow> CameraCalibrator \<Rightarrow> bool \<times> CameraCalibrator" where
  "AddObservation view_id object_point_id corner c =
     (let (ok, d) = Reconstruction_AddObservation view_id object_point_id corner
                      (recon_calib_dataset c)
      in (ok, c\<lparr>recon_calib_dataset := d\<rparr>))"

text \<open>
  \<^verbatim>\<open>CameraCalibrator::AddView\<close>, lines 83 to 129. The model type is set after the focal
  length and the principal point; a model name theia does not know is fatal.
\<close>

definition AddView ::
  "Collaborators \<Rightarrow> Matrix3d \<Rightarrow> Vector3d \<Rightarrow> real \<Rightarrow> real \<Rightarrow> int \<Rightarrow> int \<Rightarrow> real \<Rightarrow> nat
     \<Rightarrow> CameraCalibrator \<Rightarrow> Fault + (ViewId \<times> CameraCalibrator)" where
  "AddView X initial_rotation initial_position initial_focal_length initial_distortion
       image_width image_height timestamp_s g c =
     (let (view_id, d1) = Reconstruction_AddView X g timestamp_s (recon_calib_dataset c)
      in case StringToCameraIntrinsicsModelType (camera_model c) of
           None \<Rightarrow> Inl FatalLog
         | Some t \<Rightarrow>
             let cam0 = new_camera X;
                 cam1 = SetImageSize image_width image_height cam0;
                 cam2 = SetPrincipalPoint (real_of_int image_width / 2.0)
                          (real_of_int image_height / 2.0) cam1;
                 cam3 = SetPosition initial_position cam2;
                 cam4 = SetOrientationFromRotationMatrix initial_rotation cam3;
                 cam5 = SetFocalLength initial_focal_length cam4;
                 cam6 = SetCameraIntrinsicsModelType X t cam5;
                 cam7 =
                   (if camera_model c = ''PINHOLE'' then cam6
                    else if camera_model c = ''DIVISION_UNDISTORTION''
                    then SetParameter RADIAL_DISTORTION_1 initial_distortion cam6
                    else if camera_model c = ''DOUBLE_SPHERE''
                    then SetParameter ALPHA 0.5 (SetParameter XI (- 0.25) cam6)
                    else if camera_model c = ''EXTENDED_UNIFIED''
                    then SetParameter BETA 1.0 (SetParameter ALPHA 0.5 cam6)
                    else if camera_model c = ''FISHEYE'' then cam6
                    else if camera_model c = ''PINHOLE_RADIAL_TANGENTIAL'' then cam6
                    else cam6)
             in Inr (view_id,
                     c\<lparr>recon_calib_dataset :=
                         update_view view_id (\<lambda>vw. vw\<lparr>estimated := True, camera := cam7\<rparr>) d1\<rparr>))"

section \<open>Ingestion\<close>

text \<open>
  One entry of \<^verbatim>\<open>scene_json["views"]\<close>: its key read as a number, and its image
  points with their keys read as integers. The scene gives the image size, the frame
  rate and the entries in the order the loop meets them.
\<close>

record SceneView =
  timestamp_us :: real
  image_points :: "(TrackId \<times> Vector2d) list"

record Scene =
  image_width :: int
  image_height :: int
  camera_fps :: real
  scene_views :: "SceneView list"

definition hnormalized :: "Vector4d \<Rightarrow> Vector3d" where
  "hnormalized p = (case p of (x, y, z, w) \<Rightarrow> (x / w, y / w, z / w))"

text \<open>The difference of two vectors and the Euclidean norm, over the reals.\<close>

definition minus3 :: "Vector3d \<Rightarrow> Vector3d \<Rightarrow> Vector3d" where
  "minus3 a b = (case a of (ax, ay, az) \<Rightarrow> case b of (bx, by, bz) \<Rightarrow> (ax - bx, ay - by, az - bz))"

definition norm3 :: "Vector3d \<Rightarrow> real" where
  "norm3 v = (case v of (x, y, z) \<Rightarrow> sqrt (x * x + y * y + z * z))"

text \<open>Lines 250 to 260: a target point the dataset lacks is read through a null pointer.\<close>

fun build_correspondences ::
  "Reconstruction \<Rightarrow> real \<Rightarrow> real \<Rightarrow> (TrackId \<times> Vector2d) list
     \<Rightarrow> Fault + FeatureCorrespondence2D3D list" where
  "build_correspondences d px py [] = Inr []"
| "build_correspondences d px py ((board_pt3_id, corner) # rest) =
     (case Track_of d board_pt3_id of
        None \<Rightarrow> Inl NullPointerDereference
      | Some track \<Rightarrow>
          (case build_correspondences d px py rest of
             Inl e \<Rightarrow> Inl e
           | Inr cs \<Rightarrow>
               Inr (\<lparr>feature = (fst corner - px, snd corner - py),
                     world_point = hnormalized track\<rparr> # cs)))"

text \<open>Lines 262 to 307: the choice of the initialiser by the model's name.\<close>

definition initialize_camera ::
  "Collaborators \<Rightarrow> string \<Rightarrow> RansacParameters \<Rightarrow> int \<Rightarrow> int
     \<Rightarrow> FeatureCorrespondence2D3D list \<Rightarrow> InitResult" where
  "initialize_camera X cm rp w h correspondences =
     (if cm = ''PINHOLE'' \<or> cm = ''PINHOLE_RADIAL_TANGENTIAL''
      then (let r = initialize_pinhole_camera X correspondences rp
            in \<lparr>success_init = success_init r, rotation = rotation r,
                init_position = init_position r, focal_length = focal_length r,
                radial_distortion = 0.0\<rparr>)
      else if cm = ''DIVISION_UNDISTORTION''
      then initialize_radial_undistortion_camera X correspondences rp (w, h)
      else initialize_radial_undistortion_camera X correspondences rp (w, h))"

definition frame_ransac_params ::
  "Collaborators \<Rightarrow> CameraCalibrator \<Rightarrow> int \<Rightarrow> RansacParameters" where
  \<comment> \<open>line 270: the product of the double for 0.003 and the height, as a double\<close>
  "frame_ransac_params X c h =
     (ransac_params c)\<lparr>error_thresh := to_double X (to_double X 0.003 * real_of_int h)\<rparr>"

definition initialize_view ::
  "Collaborators \<Rightarrow> int \<Rightarrow> int \<Rightarrow> CameraCalibrator \<Rightarrow> SceneView \<Rightarrow> Fault + InitResult" where
  "initialize_view X w h c view =
     (let px = real_of_int w / 2.0;
          py = real_of_int h / 2.0
      in case build_correspondences (recon_calib_dataset c) px py (image_points view) of
           Inl e \<Rightarrow> Inl e
         | Inr correspondences \<Rightarrow>
             Inr (initialize_camera X (camera_model c) (frame_ransac_params X c h) w h
                    correspondences))"

record IngestState =
  calib :: CameraCalibrator
  saved_poses :: "Vector3d list"
  views_initialized :: nat

definition close_pose_present ::
  "Collaborators \<Rightarrow> real \<Rightarrow> Vector3d \<Rightarrow> Vector3d list \<Rightarrow> bool" where
  \<comment> \<open>lines 315 to 321; \<open>take_image\<close> is its negation\<close>
  "close_pose_present X g pos saved = list_ex (\<lambda>s. difference_norm X pos s < g) saved"

definition process_view ::
  "Collaborators \<Rightarrow> int \<Rightarrow> int \<Rightarrow> IngestState \<Rightarrow> SceneView \<Rightarrow> Fault + IngestState" where
  "process_view X w h st view =
     (let c = calib st;
          timestamp_s = timestamp_us view * 0.000001
      in case initialize_view X w h c view of
           Inl e \<Rightarrow> Inl e
         | Inr r \<Rightarrow>
             let c1 = c\<lparr>ransac_params := frame_ransac_params X c h\<rparr>;
                 st1 = st\<lparr>calib := c1, views_initialized := views_initialized st + 1\<rparr>;
                 take_image = (\<not> close_pose_present X (grid_size c) (init_position r) (saved_poses st))
             in if \<not> take_image \<or> \<not> success_init r then Inr st1
                else
                  (case AddView X (rotation r) (init_position r) (focal_length r)
                          (radial_distortion r) w h timestamp_s (default_group_id X) c1 of
                     Inl e \<Rightarrow> Inl e
                   | Inr (view_id, c2) \<Rightarrow>
                       Inr (st1\<lparr>saved_poses := saved_poses st @ [init_position r],
                              calib := foldl (\<lambda>c' (i, corner). snd (AddObservation view_id i corner c'))
                                         c2 (image_points view)\<rparr>)))"

fun ingest_views ::
  "Collaborators \<Rightarrow> int \<Rightarrow> int \<Rightarrow> IngestState \<Rightarrow> SceneView list \<Rightarrow> Fault + IngestState" where
  "ingest_views X w h st [] = Inr st"
| "ingest_views X w h st (view # rest) =
     (case process_view X w h st view of
        Inl e \<Rightarrow> Inl e
      | Inr st' \<Rightarrow> ingest_views X w h st' rest)"

section \<open>Reporting\<close>

definition first_view_camera :: "Reconstruction \<Rightarrow> Fault + Camera" where
  \<comment> \<open>\<^verbatim>\<open>recon_calib_dataset_.View(recon_calib_dataset_.ViewIds()[0])->Camera()\<close>\<close>
  "first_view_camera d =
     (case ViewIds d of
        [] \<Rightarrow> Inl IndexOutOfRange
      | v # _ \<Rightarrow> (case View_of d v of
                    None \<Rightarrow> Inl NullPointerDereference
                  | Some vw \<Rightarrow> Inr (camera vw)))"

datatype Out = Text string | Number real

definition print_camera :: "string \<Rightarrow> Camera \<Rightarrow> Out list" where
  \<comment> \<open>lines 393 to 458, what goes to \<^verbatim>\<open>std::cout\<close>\<close>
  "print_camera cm cam =
     [Text ''Focal Length:'', Number (FocalLength cam),
      Text ''px Principal Point: '', Number (PrincipalPointX cam), Text ''/'',
      Number (PrincipalPointY cam), Text ''px.\<newline>''] @
     (if cm = ''DIVISION_UNDISTORTION''
      then [Text ''DIVISION_UNDISTORTION model: '', Text ''Distortion: '',
            Number (intrinsics cam RADIAL_DISTORTION_1), Text ''\<newline>'']
      else if cm = ''DOUBLE_SPHERE''
      then [Text ''DOUBLE_SPHERE model: '', Text ''XI: '', Number (intrinsics cam XI),
            Text '' ALPHA: '', Number (intrinsics cam ALPHA), Text ''\<newline>'']
      else if cm = ''EXTENDED_UNIFIED''
      then [Text ''EXTENDED_UNIFIED model: '', Number (intrinsics cam ALPHA),
            Text '' BETA: '', Number (intrinsics cam BETA), Text ''\<newline>'']
      else if cm = ''FISHEYE''
      then [Text ''FISHEYE model: '',
            Text ''Radial distortion 1: '', Number (intrinsics cam RADIAL_DISTORTION_1),
            Text '' Radial distortion 2: '', Number (intrinsics cam RADIAL_DISTORTION_2),
            Text '' Radial distortion 3: '', Number (intrinsics cam RADIAL_DISTORTION_3),
            Text '' Radial distortion 4: '', Number (intrinsics cam RADIAL_DISTORTION_4),
            Text ''\<newline>'']
      else if cm = ''PINHOLE_DISTORTION''
      then [Text ''Pinhole with radial-tangential distortion: '',
            Text ''Radial distortion 1: '', Number (intrinsics cam RADIAL_DISTORTION_1),
            Text '' Radial distortion 2: '', Number (intrinsics cam RADIAL_DISTORTION_2),
            Text '' Radial distortion 3: '', Number (intrinsics cam RADIAL_DISTORTION_3),
            Text '' Tangential distortion 1: '', Number (intrinsics cam TANGENTIAL_DISTORTION_1),
            Text '' Tangential distortion 2: '', Number (intrinsics cam TANGENTIAL_DISTORTION_2),
            Text ''\<newline>'']
      else [])"

definition PrintResult :: "CameraCalibrator \<Rightarrow> Fault + Out list" where
  "PrintResult c =
     (case first_view_camera (recon_calib_dataset c) of
        Inl e \<Rightarrow> Inl e
      | Inr cam \<Rightarrow> Inr (print_camera (camera_model c) cam))"




section \<open>Reading a calibration file\<close>

text \<open>
  \<^verbatim>\<open>read_camera_calibration\<close> of \<^verbatim>\<open>io/read_camera_calibration.cc\<close>. The file's content
  is a JSON value; \<^verbatim>\<open>json_content[key]\<close> of an object without the key is null, and a
  conversion of the wrong type of value throws, as does \<^verbatim>\<open>[key]\<close> on a number or a
  string. A step that throws is \<open>None\<close> below, and so is a model name theia does not
  know, which is fatal there.
\<close>

datatype json = JNull | JNumber real | JString string | JObject "(string \<times> json) list"

fun json_at :: "json \<Rightarrow> string \<Rightarrow> json option" where
  "json_at (JObject kvs) k = Some (case map_of kvs k of None \<Rightarrow> JNull | Some v \<Rightarrow> v)"
| "json_at JNull k = Some JNull"
| "json_at (JNumber r) k = None"
| "json_at (JString s) k = None"

fun as_double :: "json \<Rightarrow> real option" where
  "as_double (JNumber r) = Some r"
| "as_double j = None"

definition to_int32 :: "int \<Rightarrow> int" where
  \<comment> \<open>the value a 32-bit \<^verbatim>\<open>int\<close> holds after a conversion from a wider integer\<close>
  "to_int32 i = (i + 2147483648) mod 4294967296 - 2147483648"

fun as_int :: "json \<Rightarrow> int option" where
  \<comment> \<open>the number cut towards zero, then brought into the range of \<^verbatim>\<open>int\<close>\<close>
  "as_int (JNumber r) = Some (to_int32 (if 0 \<le> r then \<lfloor>r\<rfloor> else \<lceil>r\<rceil>))"
| "as_int j = None"

fun as_string :: "json \<Rightarrow> string option" where
  "as_string (JString s) = Some s"
| "as_string j = None"

definition number_at :: "json \<Rightarrow> string \<Rightarrow> real option" where
  "number_at j k = do { v \<leftarrow> json_at j k; as_double v }"

definition read_intrinsics :: "string \<Rightarrow> json \<Rightarrow> Camera \<Rightarrow> Camera option" where
  \<comment> \<open>lines 59 to 116, the writes through \<^verbatim>\<open>camera.mutable_intrinsics()\<close>\<close>
  "read_intrinsics intrinsic_type intr cam =
     (if intrinsic_type = ''DIVISION_UNDISTORTION'' then do {
        d \<leftarrow> number_at intr ''div_undist_distortion'';
        a \<leftarrow> number_at intr ''aspect_ratio'';
        Some (SetParameter ASPECT_RATIO a (SetParameter RADIAL_DISTORTION_1 d cam))
      }
      else if intrinsic_type = ''DOUBLE_SPHERE'' then do {
        x \<leftarrow> number_at intr ''xi'';
        al \<leftarrow> number_at intr ''alpha'';
        a \<leftarrow> number_at intr ''aspect_ratio'';
        Some (SetParameter ASPECT_RATIO a (SetParameter ALPHA al (SetParameter XI x cam)))
      }
      else if intrinsic_type = ''EXTENDED_UNIFIED'' then do {
        al \<leftarrow> number_at intr ''alpha'';
        b \<leftarrow> number_at intr ''beta'';
        a \<leftarrow> number_at intr ''aspect_ratio'';
        Some (SetParameter ASPECT_RATIO a (SetParameter BETA b (SetParameter ALPHA al cam)))
      }
      else if intrinsic_type = ''FISHEYE'' then do {
        r1 \<leftarrow> number_at intr ''radial_distortion_1'';
        r2 \<leftarrow> number_at intr ''radial_distortion_2'';
        r3 \<leftarrow> number_at intr ''radial_distortion_3'';
        r4 \<leftarrow> number_at intr ''radial_distortion_4'';
        a \<leftarrow> number_at intr ''aspect_ratio'';
        Some (SetParameter ASPECT_RATIO a
               (SetParameter RADIAL_DISTORTION_4 r4
                 (SetParameter RADIAL_DISTORTION_3 r3
                   (SetParameter RADIAL_DISTORTION_2 r2
                     (SetParameter RADIAL_DISTORTION_1 r1 cam)))))
      }
      else if intrinsic_type = ''PINHOLE_RADIAL_TANGENTIAL'' then do {
        r1 \<leftarrow> number_at intr ''radial_distortion_1'';
        r2 \<leftarrow> number_at intr ''radial_distortion_2'';
        r3 \<leftarrow> number_at intr ''radial_distortion_3'';
        t1 \<leftarrow> number_at intr ''tangential_distortion_1'';
        t2 \<leftarrow> number_at intr ''tangential_distortion_2'';
        a \<leftarrow> number_at intr ''aspect_ratio'';
        Some (SetParameter ASPECT_RATIO a
               (SetParameter TANGENTIAL_DISTORTION_2 t2
                 (SetParameter TANGENTIAL_DISTORTION_1 t1
                   (SetParameter RADIAL_DISTORTION_3 r3
                     (SetParameter RADIAL_DISTORTION_2 r2
                       (SetParameter RADIAL_DISTORTION_1 r1 cam))))))
      }
      else if intrinsic_type = ''PINHOLE'' then do {
        a \<leftarrow> number_at intr ''aspect_ratio'';
        Some (SetParameter ASPECT_RATIO a cam)
      }
      else Some cam)"

definition read_json_content :: "Collaborators \<Rightarrow> json \<Rightarrow> Camera \<Rightarrow> (Camera \<times> real) option" where
  \<comment> \<open>lines 46 to 116\<close>
  "read_json_content X json_content cam = do {
     type_json \<leftarrow> json_at json_content ''intrinsic_type'';
     camera_model_type \<leftarrow> as_string type_json;
     t \<leftarrow> StringToCameraIntrinsicsModelType camera_model_type;
     let cam1 = SetCameraIntrinsicsModelType X t cam;
     wj \<leftarrow> json_at json_content ''image_width'';
     w \<leftarrow> as_int wj;
     hj \<leftarrow> json_at json_content ''image_height'';
     h \<leftarrow> as_int hj;
     let cam2 = SetImageSize w h cam1;
     intr \<leftarrow> json_at json_content ''intrinsics'';
     ppx \<leftarrow> number_at intr ''principal_pt_x'';
     ppy \<leftarrow> number_at intr ''principal_pt_y'';
     let cam3 = SetPrincipalPoint ppx ppy cam2;
     f \<leftarrow> number_at intr ''focal_length'';
     let cam4 = SetFocalLength f cam3;
     fps \<leftarrow> number_at json_content ''fps'';
     cam5 \<leftarrow> read_intrinsics camera_model_type intr cam4;
     Some (cam5, fps)
   }"

definition read_camera_calibration ::
  "Collaborators \<Rightarrow> json option \<Rightarrow> Camera \<Rightarrow> real \<Rightarrow> Fault + (bool \<times> Camera \<times> real)" where
  \<comment> \<open>\<open>None\<close> for a file that cannot be opened\<close>
  "read_camera_calibration X input cam fps =
     (case input of
        None \<Rightarrow> Inr (False, cam, fps)
      | Some json_content \<Rightarrow>
          (case read_json_content X json_content cam of
             None \<Rightarrow> Inl JsonException
           | Some (cam', fps') \<Rightarrow> Inr (True, cam', fps')))"

section \<open>A view of the calibrator for the proofs\<close>

definition observation_free :: "CameraCalibrator \<Rightarrow> CameraCalibrator" where
  \<comment> \<open>the calibrator with the observations of every view dropped\<close>
  "observation_free c =
     c\<lparr>recon_calib_dataset :=
         (recon_calib_dataset c)\<lparr>views :=
            map (\<lambda>(i, vw). (i, vw\<lparr>features := []\<rparr>)) (views (recon_calib_dataset c))\<rparr>\<rparr>"

definition accepted_positions :: "nat \<Rightarrow> IngestState \<Rightarrow> Vector3d list" where
  \<comment> \<open>the camera positions of the views added after the first \<open>n\<close>\<close>
  "accepted_positions n st =
     map (\<lambda>p. position (camera (snd p))) (drop n (views (recon_calib_dataset (calib st))))"

definition outcome :: "Fault + IngestState \<Rightarrow> Fault + Reconstruction \<times> Vector3d list" where
  \<comment> \<open>what a frame leaves: the dataset and the saved positions\<close>
  "outcome r = (case r of Inl e \<Rightarrow> Inl e
                | Inr st \<Rightarrow> Inr (recon_calib_dataset (calib st), saved_poses st))"

definition cameras_of :: "Reconstruction \<Rightarrow> (ViewId \<times> Camera) list" where
  "cameras_of d = map (\<lambda>p. (fst p, camera (snd p))) (views d)"

definition ingest_invariant :: "nat \<Rightarrow> IngestState \<Rightarrow> bool" where
  \<comment> \<open>the saved positions are those of the views added, whose ids are below the counter\<close>
  "ingest_invariant n st =
     (let d = recon_calib_dataset (calib st)
      in n \<le> length (cameras_of d) \<and>
         saved_poses st = map (\<lambda>q. position (snd q)) (drop n (cameras_of d)) \<and>
         (\<forall>q \<in> set (drop n (cameras_of d)). fst q < next_view_id d))"

section \<open>A concrete setting\<close>

text \<open>
  The constructor, lines 49 to 57; the minimum number of views, the grid spacing and the
  dataset are members the header initialises, so they are arguments here.
\<close>

definition CameraCalibrator_new ::
  "string \<Rightarrow> bool \<Rightarrow> nat \<Rightarrow> real \<Rightarrow> Reconstruction \<Rightarrow> CameraCalibrator" where
  "CameraCalibrator_new cm board n g d =
     \<lparr>camera_model = cm, optimize_board_pts = board, min_num_view = n, grid_size = g,
      is_verbose = False,
      ransac_params = \<lparr>failure_probability = 0.001, use_mle = True, max_iterations = 1000,
                        min_iterations = 5, error_thresh = 3.0\<rparr>,
      recon_calib_dataset = d\<rparr>"

text \<open>
  Stand-ins for the collaborators, to run the model on concrete data: a solver that
  leaves every camera and point as it is, a reprojection error that is the distance of a
  view's focal length from 800, initialisers that succeed on a frame with at least
  one correspondence and place the camera at the first correspondence's world point, and
  exact arithmetic: no rounding, and the Euclidean norm of the difference.
\<close>

definition sample_camera :: Camera where
  "sample_camera =
     \<lparr>model_type = PINHOLE, image_size = (0, 0),
      intrinsics = (\<lambda>i. if i = FOCAL_LENGTH \<or> i = ASPECT_RATIO then 1 else 0),
      position = (0, 0, 0), orientation = ((1, 0, 0), (0, 1, 0), (0, 0, 1))\<rparr>"

definition sample_collaborators :: Collaborators where
  "sample_collaborators =
     \<lparr>new_camera = sample_camera,
      create_intrinsics = (\<lambda>t cam. intrinsics cam),
      ba_views_solver =
        (\<lambda>opts ids d v. case View_of d v of Some vw \<Rightarrow> camera vw | None \<Rightarrow> sample_camera),
      ba_tracks_solver =
        (\<lambda>opts ids d t. case Track_of d t of Some p \<Rightarrow> p | None \<Rightarrow> (0, 0, 0, 1)),
      view_reproj_error = (\<lambda>pts vw. \<bar>FocalLength (camera vw) - 800\<bar>),
      initialize_pinhole_camera =
        (\<lambda>cs rp. case cs of
           [] \<Rightarrow> \<lparr>success_init = False, rotation = orientation sample_camera,
                  init_position = (0, 0, 0), focal_length = 0\<rparr>
         | c # _ \<Rightarrow> \<lparr>success_init = True, rotation = orientation sample_camera,
                     init_position = world_point c, focal_length = 800\<rparr>),
      initialize_radial_undistortion_camera =
        (\<lambda>cs rp sz. case cs of
           [] \<Rightarrow> \<lparr>success_init = False, rotation = orientation sample_camera,
                  init_position = (0, 0, 0), focal_length = 0, radial_distortion = 0\<rparr>
         | c # _ \<Rightarrow> \<lparr>success_init = True, rotation = orientation sample_camera,
                     init_position = world_point c, focal_length = 800,
                     radial_distortion = - 0.1\<rparr>),
      scene_points_to_calib_dataset = (\<lambda>d. d),
      default_ba_options =
        \<lparr>verbose = False, loss_function_type = TRIVIAL, robust_loss_width = 10,
         num_threads = 1, constant_camera_orientation = False,
         constant_camera_position = False, intrinsics_to_optimize = {},
         use_homogeneous_point_parametrization = False\<rparr>,
      hardware_concurrency = 4,
      default_group_id = 0,
      to_double = (\<lambda>r. r),
      difference_norm = (\<lambda>a b. norm3 (minus3 a b))\<rparr>"

definition sample_view :: "real \<Rightarrow> View" where
  \<comment> \<open>a view whose camera has the given focal length\<close>
  "sample_view f =
     \<lparr>camera = SetFocalLength f sample_camera, estimated = True, timestamp = 0,
      group_id = 0, features = []\<rparr>"

definition sample_dataset :: "real list \<Rightarrow> Reconstruction" where
  \<comment> \<open>views 0, 1, ... with the given focal lengths, and two board points 0.5 mm apart\<close>
  "sample_dataset fs =
     \<lparr>views = zip [0..<length fs] (map sample_view fs), next_view_id = length fs,
      tracks = [(0, (0, 0, 0, 1)), (1, (0, 0, 0.0005, 1))]\<rparr>"

definition sample_calibrator :: "string \<Rightarrow> nat \<Rightarrow> real list \<Rightarrow> CameraCalibrator" where
  "sample_calibrator cm n fs = CameraCalibrator_new cm False n 0.01 (sample_dataset fs)"

definition sample_frame :: "real \<Rightarrow> TrackId \<Rightarrow> SceneView" where
  \<comment> \<open>a frame that sees one board point, at pixel (10, 10)\<close>
  "sample_frame t board_pt = \<lparr>timestamp_us = t, image_points = [(board_pt, (10, 10))]\<rparr>"

definition radial_tangential_camera :: Camera where
  \<comment> \<open>a calibrated camera of the radial-tangential model, all five coefficients non-zero\<close>
  "radial_tangential_camera =
     \<lparr>model_type = PINHOLE_RADIAL_TANGENTIAL, image_size = (1920, 1080),
      intrinsics = (\<lambda>i. case i of
          FOCAL_LENGTH \<Rightarrow> 800 | ASPECT_RATIO \<Rightarrow> 1
        | PRINCIPAL_POINT_X \<Rightarrow> 960 | PRINCIPAL_POINT_Y \<Rightarrow> 540
        | RADIAL_DISTORTION_1 \<Rightarrow> - 0.3 | RADIAL_DISTORTION_2 \<Rightarrow> 0.1
        | RADIAL_DISTORTION_3 \<Rightarrow> - 0.02
        | TANGENTIAL_DISTORTION_1 \<Rightarrow> 0.001 | TANGENTIAL_DISTORTION_2 \<Rightarrow> - 0.002
        | _ \<Rightarrow> 0),
      position = (0, 0, 0), orientation = ((1, 0, 0), (0, 1, 0), (0, 0, 1))\<rparr>"

definition radial_tangential_calibrator :: CameraCalibrator where
  \<comment> \<open>constructed with kind \<^verbatim>\<open>PINHOLE_RADIAL_TANGENTIAL\<close>, holding one view with that camera\<close>
  "radial_tangential_calibrator =
     CameraCalibrator_new ''PINHOLE_RADIAL_TANGENTIAL'' False 1 0.01
       \<lparr>views = [(0, \<lparr>camera = radial_tangential_camera, estimated = True, timestamp = 0,
                      group_id = 0, features = []\<rparr>)],
        next_view_id = 1, tracks = []\<rparr>"

definition pinhole_camera :: "real \<Rightarrow> Camera" where
  \<comment> \<open>a pinhole camera with the given first radial-distortion coefficient\<close>
  "pinhole_camera k1 =
     \<lparr>model_type = PINHOLE, image_size = (1920, 1080),
      intrinsics = (\<lambda>i. case i of
          FOCAL_LENGTH \<Rightarrow> 800 | ASPECT_RATIO \<Rightarrow> 1
        | PRINCIPAL_POINT_X \<Rightarrow> 960 | PRINCIPAL_POINT_Y \<Rightarrow> 540
        | RADIAL_DISTORTION_1 \<Rightarrow> k1
        | _ \<Rightarrow> 0),
      position = (0, 0, 0), orientation = ((1, 0, 0), (0, 1, 0), (0, 0, 1))\<rparr>"

definition sample_scene :: Scene where
  \<comment> \<open>two frames of a 1920 x 1080 camera, seeing board point 0 and board point 1\<close>
  "sample_scene =
     \<lparr>image_width = 1920, image_height = 1080, camera_fps = 30,
      scene_views = [sample_frame 0 0, sample_frame 33333 1]\<rparr>"

definition empty_calibrator :: "string \<Rightarrow> nat \<Rightarrow> real \<Rightarrow> CameraCalibrator" where
  \<comment> \<open>a calibrator before ingestion: the two board points and no view\<close>
  "empty_calibrator cm n g = CameraCalibrator_new cm False n g (sample_dataset [])"


definition sample_start :: "real \<Rightarrow> IngestState" where
  \<comment> \<open>the start of an ingestion into a dataset without views, with the given grid spacing\<close>
  "sample_start g =
     \<lparr>calib = empty_calibrator ''PINHOLE'' 2 g, saved_poses = [], views_initialized = 0\<rparr>"

section \<open>Facts about the dataset operations\<close>

lemma NumViews_BundleAdjustViews [simp]:
  "NumViews (BundleAdjustViews X opts ids d) = NumViews d"
  by (simp add: NumViews_def BundleAdjustViews_def)

lemma ViewIds_BundleAdjustViews [simp]:
  "ViewIds (BundleAdjustViews X opts ids d) = ViewIds d"
  by (simp add: ViewIds_def BundleAdjustViews_def comp_def case_prod_beta)

lemma NumViews_BundleAdjustTracks [simp]:
  "NumViews (BundleAdjustTracks X opts ids d) = NumViews d"
  by (simp add: NumViews_def BundleAdjustTracks_def)

lemma recon_calib_dataset_update:
  "recon_calib_dataset (c\<lparr>recon_calib_dataset := d\<rparr>) = d"
  by simp

lemma keys_collect_ids_to_remove:
  "fst ` set (collect_ids_to_remove X m d vs acc) =
     fst ` set acc \<union> {v \<in> set vs. GetReprojErrorOfView X d v > m}"
proof (induction vs arbitrary: acc)
  case Nil
  then show ?case by simp
next
  case (Cons v vs)
  show ?case
    by (auto simp add: Cons.IH Let_def dom_update)
qed

lemma foldl_RemoveView:
  "foldl (\<lambda>d' p. RemoveView (fst p) d') d xs =
     d\<lparr>views := filter (\<lambda>p. fst p \<notin> fst ` set xs) (views d)\<rparr>"
proof (induction xs arbitrary: d)
  case Nil
  then show ?case by simp
next
  case (Cons x xs)
  have "filter (\<lambda>p. fst p \<notin> fst ` set xs) (filter (\<lambda>p. fst p \<noteq> fst x) (views d)) =
        filter (\<lambda>p. fst p \<notin> fst ` set (x # xs)) (views d)"
    by (auto intro: filter_cong)
  then show ?case
    unfolding foldl_Cons Cons.IH by (simp add: RemoveView_def)
qed

text \<open>The sweep keeps exactly the views whose error does not exceed the threshold.\<close>

lemma RemoveViewsReprojError_filter:
  "RemoveViewsReprojError X m d =
     d\<lparr>views := filter (\<lambda>p. \<not> GetReprojErrorOfView X d (fst p) > m) (views d)\<rparr>"
proof -
  have "filter (\<lambda>p. fst p \<notin> fst ` set (sort_key fst (collect_ids_to_remove X m d (ViewIds d) [])))
          (views d) =
        filter (\<lambda>p. \<not> GetReprojErrorOfView X d (fst p) > m) (views d)"
    by (rule filter_cong) (auto simp add: keys_collect_ids_to_remove ViewIds_def)
  then show ?thesis
    by (simp add: RemoveViewsReprojError_def foldl_RemoveView)
qed

lemma NumViews_RemoveViewsReprojError:
  "NumViews (RemoveViewsReprojError X m d) \<le> NumViews d"
  by (simp add: RemoveViewsReprojError_filter NumViews_def)

lemma map_of_filter_key:
  "P k \<Longrightarrow> map_of (filter (\<lambda>p. P (fst p)) xs) k = map_of xs k"
  by (induction xs) auto

lemma GetReprojErrorOfView_kept:
  assumes "\<not> GetReprojErrorOfView X d v > m"
  shows "GetReprojErrorOfView X (RemoveViewsReprojError X m d) v = GetReprojErrorOfView X d v"
proof -
  have "map_of (filter (\<lambda>p. \<not> GetReprojErrorOfView X d (fst p) > m) (views d)) v
          = map_of (views d) v"
    using assms by (rule map_of_filter_key [where P = "\<lambda>k. \<not> GetReprojErrorOfView X d k > m"])
  then have "View_of (RemoveViewsReprojError X m d) v = View_of d v"
    by (simp add: View_of_def RemoveViewsReprojError_filter)
  moreover have "tracks (RemoveViewsReprojError X m d) = tracks d"
    by (simp add: RemoveViewsReprojError_filter)
  ultimately show ?thesis
    by (simp only: GetReprojErrorOfView_def)
qed

section \<open>The staged optimizer, stage by stage\<close>

lemma RunCalibration_unfold:
  "RunCalibration X c =
     (if NumViews (recon_calib_dataset c) < min_num_view c then (False, c, [])
      else
        let ba1 = stage1_options (camera_model c) (initial_ba_options X);
            ba2 = stage2_options ba1;
            ba3 = stage3_options (camera_model c) ba2;
            calls3 = [BundleAdjustViews_call ba1 (ViewIds (recon_calib_dataset c)),
                      RemoveViewsReprojError_call 5.0,
                      BundleAdjustViews_call ba2 (ViewIds (after_stage1 X c))];
            calls5 = calls3 @ [BundleAdjustViews_call ba3 (ViewIds (after_stage2 X c)),
                               RemoveViewsReprojError_call 2.0]
        in if NumViews (after_stage1 X c) < min_num_view c
           then (False, c\<lparr>recon_calib_dataset := after_stage2 X c\<rparr>, calls3)
           else if NumViews (after_stage3 X c) < min_num_view c
           then (False, c\<lparr>recon_calib_dataset := after_stage3 X c\<rparr>, calls5)
           else if optimize_board_pts c
           then
             let ba4 = board_options ba3;
                 d6 = BundleAdjustTracks X ba4 (TrackIds (after_stage3 X c)) (after_stage3 X c);
                 d7 = BundleAdjustViews X ba4 (ViewIds d6) d6
             in (True, c\<lparr>recon_calib_dataset := d7\<rparr>,
                 calls5 @ [BundleAdjustTracks_call ba4 (TrackIds (after_stage3 X c)),
                           BundleAdjustViews_call ba4 (ViewIds d6)])
           else (True, c\<lparr>recon_calib_dataset := after_stage3 X c\<rparr>, calls5))"
  by (simp add: RunCalibration_def after_stage1_def after_stage2_def after_stage3_def Let_def)

subsection \<open>The sample datasets, evaluated\<close>

lemmas sample_defs =
  sample_calibrator_def CameraCalibrator_new_def sample_dataset_def sample_view_def
  sample_collaborators_def sample_camera_def

lemma upt_3: "[0..<3] = [0, 1, 2]"
  by (simp add: upt_rec)

lemma sample_solver_leaves_views:
  assumes "distinct (map fst (views d))"
  shows "BundleAdjustViews sample_collaborators opts ids d = d"
proof -
  have "map (\<lambda>(i, v). if i \<in> set ids
                        then (i, v\<lparr>camera := ba_views_solver sample_collaborators opts ids d i\<rparr>)
                        else (i, v)) (views d) = views d"
  proof (rule map_idI, clarify)
    fix i v
    assume "(i, v) \<in> set (views d)"
    with assms have "map_of (views d) i = Some v"
      by simp
    then show "(if i \<in> set ids
                then (i, v\<lparr>camera := ba_views_solver sample_collaborators opts ids d i\<rparr>)
                else (i, v)) = (i, v)"
      by (simp add: sample_collaborators_def View_of_def)
  qed
  then show ?thesis
    by (simp add: BundleAdjustViews_def)
qed

lemma distinct_filter_keys:
  "distinct (map fst xs) \<Longrightarrow> distinct (map fst (filter P xs))"
  by (induction xs) auto

lemma sample_error:
  "map_of (views d) v = Some (sample_view f) \<Longrightarrow>
   GetReprojErrorOfView sample_collaborators d v = \<bar>f - 800\<bar>"
  by (simp add: GetReprojErrorOfView_def View_of_def sample_collaborators_def sample_view_def
      FocalLength_def SetFocalLength_def SetParameter_def)

lemma upt_2: "[0..<2] = [0, 1]"
  by (simp add: upt_rec)

lemma after_stage1_one_bad:
  "views (after_stage1 sample_collaborators (sample_calibrator cm 2 [800, 810])) =
     [(0, sample_view 800)]"
proof -
  let ?d = "recon_calib_dataset (sample_calibrator cm 2 [800, 810])"
  have v: "views ?d = [(0, sample_view 800), (1, sample_view 810)]"
    by (simp add: sample_calibrator_def CameraCalibrator_new_def sample_dataset_def upt_2)
  then have "BundleAdjustViews sample_collaborators opts ids ?d = ?d" for opts ids
    by (simp add: sample_solver_leaves_views)
  then show ?thesis
    by (simp add: after_stage1_def RemoveViewsReprojError_filter v sample_error)
qed

lemma after_stage1_three:
  "views (after_stage1 sample_collaborators (sample_calibrator cm 2 [800, 800, 810])) =
     [(0, sample_view 800), (1, sample_view 800)]"
proof -
  let ?d = "recon_calib_dataset (sample_calibrator cm 2 [800, 800, 810])"
  have v: "views ?d = [(0, sample_view 800), (1, sample_view 800), (2, sample_view 810)]"
    by (simp add: sample_calibrator_def CameraCalibrator_new_def sample_dataset_def upt_3)
  then have "BundleAdjustViews sample_collaborators opts ids ?d = ?d" for opts ids
    by (simp add: sample_solver_leaves_views)
  then show ?thesis
    by (simp add: after_stage1_def RemoveViewsReprojError_filter v sample_error)
qed

lemma after_stage3_three:
  "views (after_stage3 sample_collaborators (sample_calibrator cm 2 [800, 800, 810])) =
     [(0, sample_view 800), (1, sample_view 800)]"
proof -
  let ?d1 = "after_stage1 sample_collaborators (sample_calibrator cm 2 [800, 800, 810])"
  have same: "BundleAdjustViews sample_collaborators opts ids ?d1 = ?d1" for opts ids
    by (simp add: sample_solver_leaves_views after_stage1_three)
  then have "after_stage2 sample_collaborators (sample_calibrator cm 2 [800, 800, 810])
               = ?d1"
    by (simp add: after_stage2_def)
  then show ?thesis
    by (simp add: after_stage3_def same RemoveViewsReprojError_filter after_stage1_three
        sample_error)
qed

section \<open>Claims about the staged optimizer\<close>

text \<open>
  C2. A dataset with fewer views than the configured minimum at the start of
  \<^verbatim>\<open>RunCalibration\<close> makes it return false with the calibrator, and so every view's pose
  and camera parameters, as they were, and without any call to the solver or to the
  pruning sweep.
\<close>

theorem RunCalibration_too_few_views:
  assumes "NumViews (recon_calib_dataset c) < min_num_view c"
  shows "RunCalibration X c = (False, c, [])"
  using assms by (simp add: RunCalibration_def)

theorem RunCalibration_too_few_views_witness:
  "views (recon_calib_dataset (sample_calibrator ''PINHOLE'' 2 [810])) = [(0, sample_view 810)] \<and>
   NumViews (recon_calib_dataset (sample_calibrator ''PINHOLE'' 2 [810])) <
     min_num_view (sample_calibrator ''PINHOLE'' 2 [810]) \<and>
   RunCalibration sample_collaborators (sample_calibrator ''PINHOLE'' 2 [810]) =
     (False, sample_calibrator ''PINHOLE'' 2 [810], [])"
proof -
  have one: "views (recon_calib_dataset (sample_calibrator ''PINHOLE'' 2 [810])) =
      [(0, sample_view 810)]"
    by (simp add: sample_calibrator_def CameraCalibrator_new_def sample_dataset_def)
  have few: "NumViews (recon_calib_dataset (sample_calibrator ''PINHOLE'' 2 [810])) <
     min_num_view (sample_calibrator ''PINHOLE'' 2 [810])"
    by (simp add: NumViews_def one) (simp add: sample_calibrator_def CameraCalibrator_new_def)
  from one few RunCalibration_too_few_views [OF few] show ?thesis
    by (simp only: simp_thms)
qed

text \<open>
  C1, as the specification states it, fails: with two views, of which one has an error of
  10 px after the first stage, and a minimum of two views, the sweep at 5.0 px leaves one
  view, and the principal-point solver call of stage 2 is made all the same.
\<close>

theorem stage2_runs_below_minimum:
  "NumViews (after_stage1 sample_collaborators (sample_calibrator ''PINHOLE'' 2 [800, 810])) <
     min_num_view (sample_calibrator ''PINHOLE'' 2 [800, 810]) \<and>
   snd (snd (RunCalibration sample_collaborators (sample_calibrator ''PINHOLE'' 2 [800, 810]))) =
     [BundleAdjustViews_call
        (stage1_options ''PINHOLE'' (initial_ba_options sample_collaborators)) [0, 1],
      RemoveViewsReprojError_call 5.0,
      BundleAdjustViews_call
        (stage2_options (stage1_options ''PINHOLE'' (initial_ba_options sample_collaborators)))
        [0]]"
proof -
  let ?c = "sample_calibrator ''PINHOLE'' 2 [800, 810]"
  have "min_num_view ?c = 2" and "camera_model ?c = ''PINHOLE''"
    and "views (recon_calib_dataset ?c) = [(0, sample_view 800), (1, sample_view 810)]"
    by (simp_all add: sample_defs upt_2)
  then show ?thesis
    unfolding RunCalibration_unfold
    by (simp add: NumViews_def ViewIds_def after_stage1_one_bad Let_def)
qed

text \<open>
  C1, amended. The number of views is compared with the minimum at three places: on
  entry, after the stage-2 solver call (which follows the sweep at 5.0 px and does not
  change the number of views), and after the sweep at 2.0 px. On entry a failing
  comparison returns false with no call made. After it, the stage-1 solver call, the
  sweep at 5.0 px and the stage-2 solver call are always made; if the sweep left too few
  views the result is false and these three calls are all. Otherwise the stage-3 solver
  call and the sweep at 2.0 px follow; if that sweep left too few views the result is
  false and these five calls are all, and otherwise the result is true.
\<close>

theorem RunCalibration_view_gates:
  assumes run: "RunCalibration X c = (ok, c', calls)"
  shows "(NumViews (recon_calib_dataset c) < min_num_view c \<longrightarrow> \<not> ok \<and> calls = []) \<and>
         (min_num_view c \<le> NumViews (recon_calib_dataset c) \<longrightarrow>
            take 3 calls =
              [BundleAdjustViews_call (stage1_options (camera_model c) (initial_ba_options X))
                 (ViewIds (recon_calib_dataset c)),
               RemoveViewsReprojError_call 5.0,
               BundleAdjustViews_call
                 (stage2_options (stage1_options (camera_model c) (initial_ba_options X)))
                 (ViewIds (after_stage1 X c))] \<and>
            (NumViews (after_stage1 X c) < min_num_view c \<longrightarrow> \<not> ok \<and> length calls = 3) \<and>
            (min_num_view c \<le> NumViews (after_stage1 X c) \<longrightarrow>
               take 2 (drop 3 calls) =
                 [BundleAdjustViews_call
                    (stage3_options (camera_model c)
                       (stage2_options (stage1_options (camera_model c) (initial_ba_options X))))
                    (ViewIds (after_stage2 X c)),
                  RemoveViewsReprojError_call 2.0] \<and>
               (NumViews (after_stage3 X c) < min_num_view c \<longrightarrow> \<not> ok \<and> length calls = 5) \<and>
               (min_num_view c \<le> NumViews (after_stage3 X c) \<longrightarrow> ok)))"
  using run unfolding RunCalibration_unfold
  by (auto simp add: Let_def split: if_splits)

theorem RunCalibration_view_gates_witness:
  "fst (RunCalibration sample_collaborators (sample_calibrator ''PINHOLE'' 2 [800, 800, 810])) \<and>
   take 2 (drop 3 (snd (snd (RunCalibration sample_collaborators
                                (sample_calibrator ''PINHOLE'' 2 [800, 800, 810]))))) =
     [BundleAdjustViews_call
        (stage3_options ''PINHOLE''
           (stage2_options (stage1_options ''PINHOLE'' (initial_ba_options sample_collaborators))))
        [0, 1],
      RemoveViewsReprojError_call 2.0]"
proof -
  let ?c = "sample_calibrator ''PINHOLE'' 2 [800, 800, 810]"
  let ?r = "RunCalibration sample_collaborators ?c"
  have run: "?r = (fst ?r, fst (snd ?r), snd (snd ?r))"
    by simp
  have h0: "min_num_view ?c \<le> NumViews (recon_calib_dataset ?c)"
    by (simp add: sample_defs NumViews_def)
  have h1: "min_num_view ?c \<le> NumViews (after_stage1 sample_collaborators ?c)"
    by (simp add: NumViews_def after_stage1_three) (simp add: sample_defs)
  have h3: "min_num_view ?c \<le> NumViews (after_stage3 sample_collaborators ?c)"
    by (simp add: NumViews_def after_stage3_three) (simp add: sample_defs)
  have ids: "ViewIds (after_stage2 sample_collaborators ?c) = [0, 1]"
    by (simp add: after_stage2_def) (simp add: ViewIds_def after_stage1_three)
  have cm: "camera_model ?c = ''PINHOLE''"
    by (simp add: sample_defs)
  from RunCalibration_view_gates [OF run] h0 h1 h3 ids cm show ?thesis
    by simp
qed

text \<open>
  C3. \<^verbatim>\<open>RunCalibration\<close> executes exactly the staged schedule. Stage 1 is a solver call
  over all views with orientation and position free and the focal length to optimize, the
  radial distortion with it exactly when the model is not \<^verbatim>\<open>PINHOLE\<close>, and so the
  principal point fixed; the sweep at 5.0 px follows. Stage 2 is a solver call with
  orientation and position constant and the principal points alone to optimize. Stage 3
  is a solver call with orientation and position free and the principal points, focal
  length and aspect ratio to optimize, the radial distortion with them exactly for
  \<^verbatim>\<open>PINHOLE\<close> and the tangential distortion exactly for
  \<^verbatim>\<open>PINHOLE_RADIAL_TANGENTIAL\<close>; the sweep at 2.0 px follows. With \<open>d1\<close>, \<open>d2\<close>, \<open>d3\<close> the
  datasets these calls leave, and \<open>d5\<close> what the board-point stage makes of \<open>d3\<close>, the
  run makes these calls in this order and no other, stops with false at the first of its
  three checks that fails, and returns the dataset as the last call made left it.
\<close>

theorem RunCalibration_schedule:
  assumes run: "RunCalibration X c = (ok, c', calls)"
    and o1: "o1 = stage1_options (camera_model c) (initial_ba_options X)"
    and o2: "o2 = stage2_options o1"
    and o3: "o3 = stage3_options (camera_model c) o2"
    and o4: "o4 = board_options o3"
    and d0: "d0 = recon_calib_dataset c"
    and d1: "d1 = RemoveViewsReprojError X 5.0 (BundleAdjustViews X o1 (ViewIds d0) d0)"
    and d2: "d2 = BundleAdjustViews X o2 (ViewIds d1) d1"
    and d3: "d3 = RemoveViewsReprojError X 2.0 (BundleAdjustViews X o3 (ViewIds d2) d2)"
    and d4: "d4 = BundleAdjustTracks X o4 (TrackIds d3) d3"
    and d5: "d5 = BundleAdjustViews X o4 (ViewIds d4) d4"
  shows "\<not> constant_camera_orientation o1 \<and> \<not> constant_camera_position o1 \<and>
         Opt_FOCAL_LENGTH \<in> intrinsics_to_optimize o1 \<and>
         (Opt_RADIAL_DISTORTION \<in> intrinsics_to_optimize o1 \<longleftrightarrow> camera_model c \<noteq> ''PINHOLE'') \<and>
         intrinsics_to_optimize o1 \<subseteq> {Opt_FOCAL_LENGTH, Opt_RADIAL_DISTORTION} \<and>
         constant_camera_orientation o2 \<and> constant_camera_position o2 \<and>
         intrinsics_to_optimize o2 = {Opt_PRINCIPAL_POINTS} \<and>
         \<not> constant_camera_orientation o3 \<and> \<not> constant_camera_position o3 \<and>
         {Opt_PRINCIPAL_POINTS, Opt_FOCAL_LENGTH, Opt_ASPECT_RATIO}
            \<subseteq> intrinsics_to_optimize o3 \<and>
         Opt_SKEW \<notin> intrinsics_to_optimize o3 \<and>
         (Opt_RADIAL_DISTORTION \<in> intrinsics_to_optimize o3 \<longleftrightarrow> camera_model c = ''PINHOLE'') \<and>
         (Opt_TANGENTIAL_DISTORTION \<in> intrinsics_to_optimize o3
            \<longleftrightarrow> camera_model c = ''PINHOLE_RADIAL_TANGENTIAL'') \<and>
         (ok, c', calls) =
           (if NumViews d0 < min_num_view c then (False, c, [])
            else if NumViews d2 < min_num_view c
            then (False, c\<lparr>recon_calib_dataset := d2\<rparr>,
                  [BundleAdjustViews_call o1 (ViewIds d0),
                   RemoveViewsReprojError_call 5.0,
                   BundleAdjustViews_call o2 (ViewIds d1)])
            else if NumViews d3 < min_num_view c
            then (False, c\<lparr>recon_calib_dataset := d3\<rparr>,
                  [BundleAdjustViews_call o1 (ViewIds d0),
                   RemoveViewsReprojError_call 5.0,
                   BundleAdjustViews_call o2 (ViewIds d1),
                   BundleAdjustViews_call o3 (ViewIds d2),
                   RemoveViewsReprojError_call 2.0])
            else if optimize_board_pts c
            then (True, c\<lparr>recon_calib_dataset := d5\<rparr>,
                  [BundleAdjustViews_call o1 (ViewIds d0),
                   RemoveViewsReprojError_call 5.0,
                   BundleAdjustViews_call o2 (ViewIds d1),
                   BundleAdjustViews_call o3 (ViewIds d2),
                   RemoveViewsReprojError_call 2.0,
                   BundleAdjustTracks_call o4 (TrackIds d3),
                   BundleAdjustViews_call o4 (ViewIds d4)])
            else (True, c\<lparr>recon_calib_dataset := d3\<rparr>,
                  [BundleAdjustViews_call o1 (ViewIds d0),
                   RemoveViewsReprojError_call 5.0,
                   BundleAdjustViews_call o2 (ViewIds d1),
                   BundleAdjustViews_call o3 (ViewIds d2),
                   RemoveViewsReprojError_call 2.0]))"
proof -
  have p1: "\<not> constant_camera_orientation o1 \<and> \<not> constant_camera_position o1 \<and>
         Opt_FOCAL_LENGTH \<in> intrinsics_to_optimize o1 \<and>
         (Opt_RADIAL_DISTORTION \<in> intrinsics_to_optimize o1 \<longleftrightarrow> camera_model c \<noteq> ''PINHOLE'') \<and>
         intrinsics_to_optimize o1 \<subseteq> {Opt_FOCAL_LENGTH, Opt_RADIAL_DISTORTION}"
    by (simp add: o1 stage1_options_def)
  have p2: "constant_camera_orientation o2 \<and> constant_camera_position o2 \<and>
         intrinsics_to_optimize o2 = {Opt_PRINCIPAL_POINTS}"
    by (simp add: o2 stage2_options_def)
  have p3: "\<not> constant_camera_orientation o3 \<and> \<not> constant_camera_position o3 \<and>
         {Opt_PRINCIPAL_POINTS, Opt_FOCAL_LENGTH, Opt_ASPECT_RATIO}
            \<subseteq> intrinsics_to_optimize o3 \<and>
         Opt_SKEW \<notin> intrinsics_to_optimize o3 \<and>
         (Opt_RADIAL_DISTORTION \<in> intrinsics_to_optimize o3 \<longleftrightarrow> camera_model c = ''PINHOLE'') \<and>
         (Opt_TANGENTIAL_DISTORTION \<in> intrinsics_to_optimize o3
            \<longleftrightarrow> camera_model c = ''PINHOLE_RADIAL_TANGENTIAL'')"
    by (simp add: o3 stage3_options_def Let_def)
  have s1: "after_stage1 X c = d1"
    by (simp only: after_stage1_def d1 d0 o1)
  have s2: "after_stage2 X c = d2"
    by (simp only: after_stage2_def s1 d2 o2 o1)
  have s3: "after_stage3 X c = d3"
    by (simp only: after_stage3_def s2 d3 o3 o2 o1)
  have n2: "NumViews d2 = NumViews d1"
    by (simp add: d2)
  have r: "(ok, c', calls) =
           (if NumViews d0 < min_num_view c then (False, c, [])
            else if NumViews d2 < min_num_view c
            then (False, c\<lparr>recon_calib_dataset := d2\<rparr>,
                  [BundleAdjustViews_call o1 (ViewIds d0),
                   RemoveViewsReprojError_call 5.0,
                   BundleAdjustViews_call o2 (ViewIds d1)])
            else if NumViews d3 < min_num_view c
            then (False, c\<lparr>recon_calib_dataset := d3\<rparr>,
                  [BundleAdjustViews_call o1 (ViewIds d0),
                   RemoveViewsReprojError_call 5.0,
                   BundleAdjustViews_call o2 (ViewIds d1),
                   BundleAdjustViews_call o3 (ViewIds d2),
                   RemoveViewsReprojError_call 2.0])
            else if optimize_board_pts c
            then (True, c\<lparr>recon_calib_dataset := d5\<rparr>,
                  [BundleAdjustViews_call o1 (ViewIds d0),
                   RemoveViewsReprojError_call 5.0,
                   BundleAdjustViews_call o2 (ViewIds d1),
                   BundleAdjustViews_call o3 (ViewIds d2),
                   RemoveViewsReprojError_call 2.0,
                   BundleAdjustTracks_call o4 (TrackIds d3),
                   BundleAdjustViews_call o4 (ViewIds d4)])
            else (True, c\<lparr>recon_calib_dataset := d3\<rparr>,
                  [BundleAdjustViews_call o1 (ViewIds d0),
                   RemoveViewsReprojError_call 5.0,
                   BundleAdjustViews_call o2 (ViewIds d1),
                   BundleAdjustViews_call o3 (ViewIds d2),
                   RemoveViewsReprojError_call 2.0]))"
    unfolding run [symmetric] RunCalibration_unfold s1 s2 s3 n2
    by (simp add: Let_def o1 [symmetric] o2 [symmetric] o3 [symmetric] o4 [symmetric]
        d0 [symmetric] d4 [symmetric] d5 [symmetric])
  from p1 p2 p3 r show ?thesis
    by (simp only: simp_thms)
qed

theorem RunCalibration_schedule_witness:
  "fst (RunCalibration sample_collaborators
          (sample_calibrator ''PINHOLE_RADIAL_TANGENTIAL'' 2 [800, 800, 810])) \<and>
   views (recon_calib_dataset (fst (snd (RunCalibration sample_collaborators
          (sample_calibrator ''PINHOLE_RADIAL_TANGENTIAL'' 2 [800, 800, 810]))))) =
     [(0, sample_view 800), (1, sample_view 800)] \<and>
   length (snd (snd (RunCalibration sample_collaborators
          (sample_calibrator ''PINHOLE_RADIAL_TANGENTIAL'' 2 [800, 800, 810])))) = 5 \<and>
   Opt_TANGENTIAL_DISTORTION \<in> intrinsics_to_optimize
     (stage3_options ''PINHOLE_RADIAL_TANGENTIAL''
        (stage2_options (stage1_options ''PINHOLE_RADIAL_TANGENTIAL''
           (initial_ba_options sample_collaborators))))"
proof -
  let ?X = sample_collaborators
  let ?c = "sample_calibrator ''PINHOLE_RADIAL_TANGENTIAL'' 2 [800, 800, 810]"
  let ?r = "RunCalibration ?X ?c"
  let ?o1 = "stage1_options (camera_model ?c) (initial_ba_options ?X)"
  let ?o2 = "stage2_options ?o1"
  let ?o3 = "stage3_options (camera_model ?c) ?o2"
  let ?d0 = "recon_calib_dataset ?c"
  let ?d1 = "RemoveViewsReprojError ?X 5.0 (BundleAdjustViews ?X ?o1 (ViewIds ?d0) ?d0)"
  let ?d2 = "BundleAdjustViews ?X ?o2 (ViewIds ?d1) ?d1"
  let ?d3 = "RemoveViewsReprojError ?X 2.0 (BundleAdjustViews ?X ?o3 (ViewIds ?d2) ?d2)"
  have run: "?r = (fst ?r, fst (snd ?r), snd (snd ?r))"
    by simp
  have cm: "camera_model ?c = ''PINHOLE_RADIAL_TANGENTIAL''" and mn: "min_num_view ?c = 2"
    and nb: "\<not> optimize_board_pts ?c"
    by (simp_all add: sample_calibrator_def CameraCalibrator_new_def)
  have n0: "NumViews ?d0 = 3"
    by (simp add: sample_calibrator_def CameraCalibrator_new_def sample_dataset_def NumViews_def)
  have s1: "after_stage1 ?X ?c = ?d1"
    by (simp only: after_stage1_def)
  have s2: "after_stage2 ?X ?c = ?d2"
    by (simp only: after_stage2_def s1)
  have s3: "after_stage3 ?X ?c = ?d3"
    by (simp only: after_stage3_def s2)
  have v1: "views ?d1 = [(0, sample_view 800), (1, sample_view 800)]"
    using after_stage1_three [of "''PINHOLE_RADIAL_TANGENTIAL''"] by (simp only: s1)
  have v3: "views ?d3 = [(0, sample_view 800), (1, sample_view 800)]"
    using after_stage3_three [of "''PINHOLE_RADIAL_TANGENTIAL''"] by (simp only: s3)
  have "NumViews ?d1 = 2"
    by (simp only: NumViews_def v1) simp
  then have n2: "NumViews ?d2 = 2"
    by (simp only: NumViews_BundleAdjustViews)
  have n3: "NumViews ?d3 = 2"
    by (simp only: NumViews_def v3) simp
  note sched = RunCalibration_schedule [OF run refl refl refl refl refl refl refl refl refl refl]
  from sched have res: "(fst ?r, fst (snd ?r), snd (snd ?r)) =
           (if NumViews ?d0 < min_num_view ?c then (False, ?c, [])
            else if NumViews ?d2 < min_num_view ?c
            then (False, ?c\<lparr>recon_calib_dataset := ?d2\<rparr>,
                  [BundleAdjustViews_call ?o1 (ViewIds ?d0),
                   RemoveViewsReprojError_call 5.0,
                   BundleAdjustViews_call ?o2 (ViewIds ?d1)])
            else if NumViews ?d3 < min_num_view ?c
            then (False, ?c\<lparr>recon_calib_dataset := ?d3\<rparr>,
                  [BundleAdjustViews_call ?o1 (ViewIds ?d0),
                   RemoveViewsReprojError_call 5.0,
                   BundleAdjustViews_call ?o2 (ViewIds ?d1),
                   BundleAdjustViews_call ?o3 (ViewIds ?d2),
                   RemoveViewsReprojError_call 2.0])
            else if optimize_board_pts ?c
            then (True, ?c\<lparr>recon_calib_dataset :=
                     BundleAdjustViews ?X (board_options ?o3)
                       (ViewIds (BundleAdjustTracks ?X (board_options ?o3) (TrackIds ?d3) ?d3))
                       (BundleAdjustTracks ?X (board_options ?o3) (TrackIds ?d3) ?d3)\<rparr>,
                  [BundleAdjustViews_call ?o1 (ViewIds ?d0),
                   RemoveViewsReprojError_call 5.0,
                   BundleAdjustViews_call ?o2 (ViewIds ?d1),
                   BundleAdjustViews_call ?o3 (ViewIds ?d2),
                   RemoveViewsReprojError_call 2.0,
                   BundleAdjustTracks_call (board_options ?o3) (TrackIds ?d3),
                   BundleAdjustViews_call (board_options ?o3)
                     (ViewIds (BundleAdjustTracks ?X (board_options ?o3) (TrackIds ?d3) ?d3))])
            else (True, ?c\<lparr>recon_calib_dataset := ?d3\<rparr>,
                  [BundleAdjustViews_call ?o1 (ViewIds ?d0),
                   RemoveViewsReprojError_call 5.0,
                   BundleAdjustViews_call ?o2 (ViewIds ?d1),
                   BundleAdjustViews_call ?o3 (ViewIds ?d2),
                   RemoveViewsReprojError_call 2.0]))"
    by (elim conjE)
  have eq: "(fst ?r, fst (snd ?r), snd (snd ?r)) =
      (True, ?c\<lparr>recon_calib_dataset := ?d3\<rparr>,
                  [BundleAdjustViews_call ?o1 (ViewIds ?d0),
                   RemoveViewsReprojError_call 5.0,
                   BundleAdjustViews_call ?o2 (ViewIds ?d1),
                   BundleAdjustViews_call ?o3 (ViewIds ?d2),
                   RemoveViewsReprojError_call 2.0])"
    unfolding res n0 n2 n3 mn using nb by simp
  from sched have "Opt_TANGENTIAL_DISTORTION \<in> intrinsics_to_optimize ?o3
            \<longleftrightarrow> camera_model ?c = ''PINHOLE_RADIAL_TANGENTIAL''"
    by (elim conjE)
  with cm have t: "Opt_TANGENTIAL_DISTORTION \<in> intrinsics_to_optimize
     (stage3_options ''PINHOLE_RADIAL_TANGENTIAL''
        (stage2_options (stage1_options ''PINHOLE_RADIAL_TANGENTIAL''
           (initial_ba_options sample_collaborators))))"
    by simp
  from eq have ok: "fst ?r"
    and c': "fst (snd ?r) = ?c\<lparr>recon_calib_dataset := ?d3\<rparr>"
    and len: "length (snd (snd ?r)) = 5"
    by simp_all
  have "views (recon_calib_dataset (fst (snd ?r))) = [(0, sample_view 800), (1, sample_view 800)]"
    unfolding c' recon_calib_dataset_update by (rule v3)
  with ok len t show ?thesis
    by (simp only: simp_thms)
qed

section \<open>Claims about the pruning sweep\<close>

text \<open>
  C7. The pruning sweep is idempotent: a second run of \<^verbatim>\<open>RemoveViewsReprojError\<close> with
  the same threshold, the cameras unchanged in between, removes no further view. The
  error of a view is that of section 4.5 of the specification, which the other views
  present do not enter, and all condemned ids are collected before the first removal.
\<close>

theorem RemoveViewsReprojError_idempotent:
  "RemoveViewsReprojError X m (RemoveViewsReprojError X m d) = RemoveViewsReprojError X m d"
proof -
  let ?d' = "RemoveViewsReprojError X m d"
  have "filter (\<lambda>p. \<not> GetReprojErrorOfView X ?d' (fst p) > m) (views ?d') = views ?d'"
  proof (rule filter_True, clarify)
    fix i vw
    assume "(i, vw) \<in> set (views ?d')" and gt: "m < GetReprojErrorOfView X ?d' (fst (i, vw))"
    then have "\<not> GetReprojErrorOfView X d i > m"
      by (simp add: RemoveViewsReprojError_filter)
    from GetReprojErrorOfView_kept [OF this] gt this show False by simp
  qed
  then show ?thesis
    by (subst RemoveViewsReprojError_filter) simp
qed

section \<open>Claims about the reporter\<close>



text \<open>
  Whatever the camera, a calibrator of kind \<^verbatim>\<open>PINHOLE_RADIAL_TANGENTIAL\<close> prints the focal
  length and the principal point and nothing else: the last branch of \<^verbatim>\<open>PrintResult\<close>
  compares the kind with \<^verbatim>\<open>PINHOLE_DISTORTION\<close>, a name no other place uses.
\<close>

lemma print_camera_radial_tangential:
  "print_camera ''PINHOLE_RADIAL_TANGENTIAL'' cam =
     [Text ''Focal Length:'', Number (FocalLength cam),
      Text ''px Principal Point: '', Number (PrincipalPointX cam), Text ''/'',
      Number (PrincipalPointY cam), Text ''px.\<newline>'']"
  by (simp add: print_camera_def)

text \<open>
  C4 does not hold of the code. The calibrator of kind \<^verbatim>\<open>PINHOLE_RADIAL_TANGENTIAL\<close>
  whose first view has the radial coefficients -0.3, 0.1, -0.02 and the tangential
  coefficients 0.001, -0.002 reports the focal length 800 and the principal point
  960/540, and none of the five coefficients.
\<close>

theorem PrintResult_omits_radial_tangential:
  "PrintResult radial_tangential_calibrator =
     Inr [Text ''Focal Length:'', Number 800,
          Text ''px Principal Point: '', Number 960, Text ''/'', Number 540,
          Text ''px.\<newline>'']"
proof -
  have "first_view_camera (recon_calib_dataset radial_tangential_calibrator) =
          Inr radial_tangential_camera"
    by (simp add: first_view_camera_def ViewIds_def View_of_def
        radial_tangential_calibrator_def CameraCalibrator_new_def)
  moreover have "camera_model radial_tangential_calibrator = ''PINHOLE_RADIAL_TANGENTIAL''"
    by (simp add: radial_tangential_calibrator_def CameraCalibrator_new_def)
  ultimately show ?thesis
    by (simp add: PrintResult_def print_camera_radial_tangential FocalLength_def
        PrincipalPointX_def PrincipalPointY_def radial_tangential_camera_def)
qed

section \<open>Claims about the calibration file\<close>

lemma StringToCameraIntrinsicsModelType_PINHOLE:
  "StringToCameraIntrinsicsModelType s = Some PINHOLE \<Longrightarrow> s = ''PINHOLE''"
  by (simp add: StringToCameraIntrinsicsModelType_def split: if_splits)

lemma read_intrinsics_PINHOLE:
  assumes "read_intrinsics ''PINHOLE'' intr cam = Some cam'"
  shows "intrinsics cam' RADIAL_DISTORTION_1 = intrinsics cam RADIAL_DISTORTION_1"
    and "model_type cam' = model_type cam"
  using assms
  by (auto simp add: read_intrinsics_def SetParameter_def bind_eq_Some_conv)

text \<open>
  Reading a file of kind \<^verbatim>\<open>PINHOLE\<close> never writes the first radial-distortion
  coefficient: the camera read has the value it got when its model type was set.
\<close>

lemma read_json_content_PINHOLE:
  assumes "read_json_content X j cam0 = Some (cam, fps)" and "model_type cam = PINHOLE"
  shows "intrinsics cam RADIAL_DISTORTION_1 = create_intrinsics X PINHOLE cam0 RADIAL_DISTORTION_1"
proof -
  from assms(1) obtain s t w h intr ppx ppy f where
    t: "StringToCameraIntrinsicsModelType s = Some t" and
    r: "read_intrinsics s intr
          (SetFocalLength f (SetPrincipalPoint ppx ppy (SetImageSize w h
             (SetCameraIntrinsicsModelType X t cam0)))) = Some cam"
    by (auto simp add: read_json_content_def bind_eq_Some_conv Let_def)
  have mt: "model_type cam = t"
    using r
    by (auto simp add: read_intrinsics_def SetParameter_def SetFocalLength_def
        SetPrincipalPoint_def SetImageSize_def SetCameraIntrinsicsModelType_def
        bind_eq_Some_conv split: if_splits)
  with assms(2) t have s: "s = ''PINHOLE''" and t': "t = PINHOLE"
    by (simp_all add: StringToCameraIntrinsicsModelType_PINHOLE)
  from read_intrinsics_PINHOLE(1) [OF r [unfolded s]] show ?thesis
    by (simp add: t' SetParameter_def SetFocalLength_def SetPrincipalPoint_def
        SetImageSize_def SetCameraIntrinsicsModelType_def)
qed

text \<open>
  C5 does not hold of the code. Take two pinhole cameras that differ in their first
  radial-distortion coefficient only, 0 and 0.1. Whatever the serialiser \<open>w\<close> writes for
  them, and whatever camera \<^verbatim>\<open>read_camera_calibration\<close> is given to fill, it cannot
  give both cameras back.
\<close>

theorem read_camera_calibration_loses_pinhole_radial:
  "\<not> (read_camera_calibration X (Some (w (pinhole_camera 0))) cam0 fps0
          = Inr (True, pinhole_camera 0, fa) \<and>
       read_camera_calibration X (Some (w (pinhole_camera 0.1))) cam0 fps0
          = Inr (True, pinhole_camera 0.1, fb))"
proof
  assume both: "read_camera_calibration X (Some (w (pinhole_camera 0))) cam0 fps0
          = Inr (True, pinhole_camera 0, fa) \<and>
       read_camera_calibration X (Some (w (pinhole_camera 0.1))) cam0 fps0
          = Inr (True, pinhole_camera 0.1, fb)"
  then have a: "read_json_content X (w (pinhole_camera 0)) cam0 = Some (pinhole_camera 0, fa)"
    and b: "read_json_content X (w (pinhole_camera 0.1)) cam0 = Some (pinhole_camera 0.1, fb)"
    by (auto simp add: read_camera_calibration_def split: option.splits)
  have "intrinsics (pinhole_camera 0) RADIAL_DISTORTION_1 =
        intrinsics (pinhole_camera 0.1) RADIAL_DISTORTION_1"
    using read_json_content_PINHOLE [OF a] read_json_content_PINHOLE [OF b]
    by (simp add: pinhole_camera_def)
  then show False
    by (simp add: pinhole_camera_def)
qed

section \<open>Facts about adding views and observations\<close>

lemma observation_free_update_features:
  "observation_free (c\<lparr>recon_calib_dataset :=
       update_view v (\<lambda>vw. vw\<lparr>features := g vw\<rparr>) (recon_calib_dataset c)\<rparr>) = observation_free c"
  by (simp add: observation_free_def update_view_def comp_def case_prod_beta)

lemma observation_free_AddObservation:
  "observation_free (snd (AddObservation v t corner c)) = observation_free c"
proof (cases "View_of (recon_calib_dataset c) v")
  case None
  then show ?thesis
    by (simp add: AddObservation_def Reconstruction_AddObservation_def)
next
  case (Some vw)
  then show ?thesis
    by (simp add: AddObservation_def Reconstruction_AddObservation_def
        observation_free_update_features)
qed

lemma observation_free_foldl_AddObservation:
  "observation_free (foldl (\<lambda>c' (i, corner). snd (AddObservation v i corner c')) c pts)
     = observation_free c"
  by (induction pts arbitrary: c) (auto simp add: observation_free_AddObservation)

lemma observation_free_fields:
  "camera_model (observation_free c) = camera_model c"
  "grid_size (observation_free c) = grid_size c"
  "min_num_view (observation_free c) = min_num_view c"
  "ransac_params (observation_free c) = ransac_params c"
  "optimize_board_pts (observation_free c) = optimize_board_pts c"
  "is_verbose (observation_free c) = is_verbose c"
  "tracks (recon_calib_dataset (observation_free c)) = tracks (recon_calib_dataset c)"
  "next_view_id (recon_calib_dataset (observation_free c)) = next_view_id (recon_calib_dataset c)"
  "cameras_of (recon_calib_dataset (observation_free c)) = cameras_of (recon_calib_dataset c)"
  by (simp_all add: observation_free_def cameras_of_def comp_def case_prod_beta)

lemma observation_free_eqD:
  assumes "observation_free c' = observation_free c"
  shows "camera_model c' = camera_model c"
    and "grid_size c' = grid_size c"
    and "min_num_view c' = min_num_view c"
    and "ransac_params c' = ransac_params c"
    and "tracks (recon_calib_dataset c') = tracks (recon_calib_dataset c)"
    and "next_view_id (recon_calib_dataset c') = next_view_id (recon_calib_dataset c)"
    and "cameras_of (recon_calib_dataset c') = cameras_of (recon_calib_dataset c)"
proof -
  show "camera_model c' = camera_model c"
    using arg_cong [OF assms, of camera_model] by (simp only: observation_free_fields)
  show "grid_size c' = grid_size c"
    using arg_cong [OF assms, of grid_size] by (simp only: observation_free_fields)
  show "min_num_view c' = min_num_view c"
    using arg_cong [OF assms, of min_num_view] by (simp only: observation_free_fields)
  show "ransac_params c' = ransac_params c"
    using arg_cong [OF assms, of ransac_params] by (simp only: observation_free_fields)
  show "tracks (recon_calib_dataset c') = tracks (recon_calib_dataset c)"
    using arg_cong [OF assms, of "\<lambda>x. tracks (recon_calib_dataset x)"]
    by (simp only: observation_free_fields)
  show "next_view_id (recon_calib_dataset c') = next_view_id (recon_calib_dataset c)"
    using arg_cong [OF assms, of "\<lambda>x. next_view_id (recon_calib_dataset x)"]
    by (simp only: observation_free_fields)
  show "cameras_of (recon_calib_dataset c') = cameras_of (recon_calib_dataset c)"
    using arg_cong [OF assms, of "\<lambda>x. cameras_of (recon_calib_dataset x)"]
    by (simp only: observation_free_fields)
qed

lemmas camera_setters =
  SetParameter_def SetFocalLength_def SetPrincipalPoint_def SetImageSize_def
  SetPosition_def SetOrientationFromRotationMatrix_def SetCameraIntrinsicsModelType_def

lemma position_setters:
  "position (SetCameraIntrinsicsModelType X t cam) = position cam"
  "position (SetFocalLength f cam) = position cam"
  "position (SetParameter i v cam) = position cam"
  "position (SetPrincipalPoint x y cam) = position cam"
  "position (SetImageSize w h cam) = position cam"
  "position (SetOrientationFromRotationMatrix R cam) = position cam"
  "position (SetPosition p cam) = p"
  by (simp_all add: camera_setters)

lemma AddView_unfold:
  assumes "AddView X R p f k w h ts g c = Inr (vid, c2)"
  shows "\<exists>cam. position cam = p \<and> vid = next_view_id (recon_calib_dataset c) \<and>
           c2 = c\<lparr>recon_calib_dataset :=
                   update_view vid (\<lambda>vw. vw\<lparr>estimated := True, camera := cam\<rparr>)
                     (snd (Reconstruction_AddView X g ts (recon_calib_dataset c)))\<rparr>"
proof (cases "StringToCameraIntrinsicsModelType (camera_model c)")
  case None
  with assms show ?thesis
    by (simp add: AddView_def Reconstruction_AddView_def)
next
  case (Some t)
  let ?cam6 = "SetCameraIntrinsicsModelType X t (SetFocalLength f
                 (SetOrientationFromRotationMatrix R (SetPosition p
                   (SetPrincipalPoint (real_of_int w / 2.0) (real_of_int h / 2.0)
                     (SetImageSize w h (new_camera X))))))"
  let ?cam7 = "(if camera_model c = ''PINHOLE'' then ?cam6
                else if camera_model c = ''DIVISION_UNDISTORTION''
                then SetParameter RADIAL_DISTORTION_1 k ?cam6
                else if camera_model c = ''DOUBLE_SPHERE''
                then SetParameter ALPHA 0.5 (SetParameter XI (- 0.25) ?cam6)
                else if camera_model c = ''EXTENDED_UNIFIED''
                then SetParameter BETA 1.0 (SetParameter ALPHA 0.5 ?cam6)
                else if camera_model c = ''FISHEYE'' then ?cam6
                else if camera_model c = ''PINHOLE_RADIAL_TANGENTIAL'' then ?cam6
                else ?cam6)"
  have pos7: "position ?cam7 = p"
    by (simp add: position_setters)
  have eq: "AddView X R p f k w h ts g c =
          Inr (next_view_id (recon_calib_dataset c),
               c\<lparr>recon_calib_dataset :=
                   update_view (next_view_id (recon_calib_dataset c))
                     (\<lambda>vw. vw\<lparr>estimated := True, camera := ?cam7\<rparr>)
                     (snd (Reconstruction_AddView X g ts (recon_calib_dataset c)))\<rparr>)"
    by (simp only: AddView_def Reconstruction_AddView_def Let_def Some option.case
        prod.case snd_conv)
  have "Inr (vid, c2) =
          (Inr (next_view_id (recon_calib_dataset c),
               c\<lparr>recon_calib_dataset :=
                   update_view (next_view_id (recon_calib_dataset c))
                     (\<lambda>vw. vw\<lparr>estimated := True, camera := ?cam7\<rparr>)
                     (snd (Reconstruction_AddView X g ts (recon_calib_dataset c)))\<rparr>)
            :: Fault + ViewId \<times> CameraCalibrator)"
    by (rule trans [OF assms [symmetric] eq])
  then have "vid = next_view_id (recon_calib_dataset c) \<and>
      c2 = c\<lparr>recon_calib_dataset :=
                   update_view (next_view_id (recon_calib_dataset c))
                     (\<lambda>vw. vw\<lparr>estimated := True, camera := ?cam7\<rparr>)
                     (snd (Reconstruction_AddView X g ts (recon_calib_dataset c)))\<rparr>"
    by (simp only: sum.inject prod.inject)
  then have both: "position ?cam7 = p \<and> vid = next_view_id (recon_calib_dataset c) \<and>
      c2 = c\<lparr>recon_calib_dataset :=
                   update_view vid
                     (\<lambda>vw. vw\<lparr>estimated := True, camera := ?cam7\<rparr>)
                     (snd (Reconstruction_AddView X g ts (recon_calib_dataset c)))\<rparr>"
    using pos7 by (simp only: simp_thms)
  show ?thesis
    by (rule exI [where x = ?cam7]) (rule both)
qed

lemma AddView_result:
  assumes "AddView X R p f k w h ts g c = Inr (vid, c2)"
  shows "vid = next_view_id (recon_calib_dataset c)"
    and "next_view_id (recon_calib_dataset c2) = Suc vid"
    and "tracks (recon_calib_dataset c2) = tracks (recon_calib_dataset c)"
    and "camera_model c2 = camera_model c" and "grid_size c2 = grid_size c"
    and "min_num_view c2 = min_num_view c" and "ransac_params c2 = ransac_params c"
    and "\<exists>cam F. cameras_of (recon_calib_dataset c2) =
            map (\<lambda>q. if fst q = vid then F q else q) (cameras_of (recon_calib_dataset c))
              @ [(vid, cam)]
          \<and> position cam = p"
proof -
  from AddView_unfold [OF assms] obtain cam where
    pos: "position cam = p" and vid: "vid = next_view_id (recon_calib_dataset c)" and
    c2: "c2 = c\<lparr>recon_calib_dataset :=
                   update_view vid (\<lambda>vw. vw\<lparr>estimated := True, camera := cam\<rparr>)
                     (snd (Reconstruction_AddView X g ts (recon_calib_dataset c)))\<rparr>"
    by blast
  show "vid = next_view_id (recon_calib_dataset c)"
    by (rule vid)
  show "next_view_id (recon_calib_dataset c2) = Suc vid"
    by (simp add: c2 vid update_view_def Reconstruction_AddView_def)
  show "tracks (recon_calib_dataset c2) = tracks (recon_calib_dataset c)"
    by (simp add: c2 update_view_def Reconstruction_AddView_def)
  show "camera_model c2 = camera_model c" and "grid_size c2 = grid_size c"
    and "min_num_view c2 = min_num_view c" and "ransac_params c2 = ransac_params c"
    by (simp_all add: c2)
  have "cameras_of (recon_calib_dataset c2) =
          map (\<lambda>q. if fst q = vid then (fst q, cam) else q) (cameras_of (recon_calib_dataset c))
            @ [(vid, cam)]"
    by (simp add: c2 vid cameras_of_def update_view_def Reconstruction_AddView_def comp_def
        case_prod_beta if_distrib cong: if_cong)
  with pos show "\<exists>cam F. cameras_of (recon_calib_dataset c2) =
            map (\<lambda>q. if fst q = vid then F q else q) (cameras_of (recon_calib_dataset c))
              @ [(vid, cam)]
          \<and> position cam = p"
    by (intro exI [of _ cam] exI [of _ "\<lambda>q. (fst q, cam)"]) simp
qed

section \<open>Claims about the initialiser\<close>




section \<open>Facts about the ingestion of frames\<close>

lemma accepted_positions_cameras:
  "accepted_positions n st =
     map (\<lambda>q. position (snd q)) (drop n (cameras_of (recon_calib_dataset (calib st))))"
  by (simp add: accepted_positions_def cameras_of_def drop_map comp_def)

lemma NumViews_cameras: "NumViews d = length (cameras_of d)"
  by (simp add: NumViews_def cameras_of_def)

lemma process_view_skip:
  assumes "initialize_view X w h (calib st) view = Inr r"
    and "close_pose_present X (grid_size (calib st)) (init_position r) (saved_poses st)
           \<or> \<not> success_init r"
  shows "process_view X w h st view =
           Inr (st\<lparr>calib := (calib st)\<lparr>ransac_params := frame_ransac_params X (calib st) h\<rparr>,
                   views_initialized := views_initialized st + 1\<rparr>)"
  using assms by (auto simp add: process_view_def Let_def)

lemma process_view_take:
  assumes "initialize_view X w h (calib st) view = Inr r"
    and "\<not> close_pose_present X (grid_size (calib st)) (init_position r) (saved_poses st)"
    and "success_init r"
    and "AddView X (rotation r) (init_position r) (focal_length r) (radial_distortion r)
           w h (timestamp_us view * 0.000001) (default_group_id X)
           ((calib st)\<lparr>ransac_params := frame_ransac_params X (calib st) h\<rparr>) = Inr (vid, c2)"
  shows "process_view X w h st view =
           Inr (st\<lparr>calib := foldl (\<lambda>c' (i, corner). snd (AddObservation vid i corner c'))
                                    c2 (image_points view),
                   views_initialized := views_initialized st + 1,
                   saved_poses := saved_poses st @ [init_position r]\<rparr>)"
  using assms by (simp add: process_view_def Let_def)

lemma AddView_defined:
  assumes "StringToCameraIntrinsicsModelType (camera_model c) = Some t"
  shows "\<exists>vid c2. AddView X R p f k w h ts g c = Inr (vid, c2)"
  using assms by (simp add: AddView_def Reconstruction_AddView_def Let_def)

lemma process_view_cases:
  assumes "process_view X w h st view = Inr st'"
  obtains (skip) r where "initialize_view X w h (calib st) view = Inr r"
      and "close_pose_present X (grid_size (calib st)) (init_position r) (saved_poses st)
           \<or> \<not> success_init r"
      and "st' = st\<lparr>calib := (calib st)\<lparr>ransac_params := frame_ransac_params X (calib st) h\<rparr>,
                   views_initialized := views_initialized st + 1\<rparr>"
  | (take) r vid c2 where "initialize_view X w h (calib st) view = Inr r"
      and "\<not> close_pose_present X (grid_size (calib st)) (init_position r) (saved_poses st)"
      and "success_init r"
      and "AddView X (rotation r) (init_position r) (focal_length r) (radial_distortion r)
           w h (timestamp_us view * 0.000001) (default_group_id X)
           ((calib st)\<lparr>ransac_params := frame_ransac_params X (calib st) h\<rparr>) = Inr (vid, c2)"
      and "st' = st\<lparr>calib := foldl (\<lambda>c' (i, corner). snd (AddObservation vid i corner c'))
                                    c2 (image_points view),
                   views_initialized := views_initialized st + 1,
                   saved_poses := saved_poses st @ [init_position r]\<rparr>"
proof (cases "initialize_view X w h (calib st) view")
  case (Inl e)
  with assms show ?thesis
    by (simp add: process_view_def)
next
  case (Inr r)
  show ?thesis
  proof (cases "close_pose_present X (grid_size (calib st)) (init_position r) (saved_poses st)
           \<or> \<not> success_init r")
    case True
    from process_view_skip [OF Inr True] assms skip [OF Inr True] show ?thesis
      by simp
  next
    case False
    then have nc: "\<not> close_pose_present X (grid_size (calib st)) (init_position r) (saved_poses st)"
      and ok: "success_init r"
      by simp_all
    show ?thesis
    proof (cases "AddView X (rotation r) (init_position r) (focal_length r) (radial_distortion r)
           w h (timestamp_us view * 0.000001) (default_group_id X)
           ((calib st)\<lparr>ransac_params := frame_ransac_params X (calib st) h\<rparr>)")
      case (Inl e)
      with assms Inr nc ok show ?thesis
        by (simp add: process_view_def Let_def)
    next
      case av: (Inr p)
      obtain vid c2 where p: "p = (vid, c2)"
        by (cases p)
      from process_view_take [OF Inr nc ok av [unfolded p]] assms
        take [OF Inr nc ok av [unfolded p]] show ?thesis
        by simp
    qed
  qed
qed

lemma process_view_config_all:
  assumes "process_view X w h st view = Inr st'"
  shows "camera_model (calib st') = camera_model (calib st) \<and>
    grid_size (calib st') = grid_size (calib st) \<and>
    min_num_view (calib st') = min_num_view (calib st) \<and>
    tracks (recon_calib_dataset (calib st')) = tracks (recon_calib_dataset (calib st)) \<and>
    ransac_params (calib st') = frame_ransac_params X (calib st) h \<and>
    views_initialized st' = views_initialized st + 1"
  using assms
proof (cases rule: process_view_cases)
  case (skip r)
  then show ?thesis
    by simp
next
  case (take r vid c2)
  let ?c3 = "foldl (\<lambda>c' (i, corner). snd (AddObservation vid i corner c')) c2 (image_points view)"
  note a = AddView_result [OF take(4)]
  note o = observation_free_eqD [OF observation_free_foldl_AddObservation [of vid c2 "image_points view"]]
  have c: "calib st' = ?c3" and vi: "views_initialized st' = views_initialized st + 1"
    by (simp_all add: take(5))
  show ?thesis
    unfolding c using o(1-5) a(3-7) vi by simp
qed

lemma process_view_config:
  assumes "process_view X w h st view = Inr st'"
  shows "camera_model (calib st') = camera_model (calib st)"
    and "grid_size (calib st') = grid_size (calib st)"
    and "min_num_view (calib st') = min_num_view (calib st)"
    and "tracks (recon_calib_dataset (calib st')) = tracks (recon_calib_dataset (calib st))"
    and "ransac_params (calib st') = frame_ransac_params X (calib st) h"
    and "views_initialized st' = views_initialized st + 1"
  using process_view_config_all [OF assms] by simp_all

lemma process_view_invariant:
  assumes inv: "ingest_invariant n st"
    and run: "process_view X w h st view = Inr st'"
  shows "ingest_invariant n st'"
  using run
proof (cases rule: process_view_cases)
  case (skip r)
  with inv show ?thesis
    by (simp add: ingest_invariant_def Let_def)
next
  case (take r vid c2)
  let ?d = "recon_calib_dataset (calib st)"
  let ?c3 = "foldl (\<lambda>c' (i, corner). snd (AddObservation vid i corner c')) c2 (image_points view)"
  note a = AddView_result [OF take(4)]
  note o = observation_free_eqD [OF observation_free_foldl_AddObservation [of vid c2 "image_points view"]]
  have c: "calib st' = ?c3" and sp: "saved_poses st' = saved_poses st @ [init_position r]"
    by (simp_all add: take(5))
  from inv have n: "n \<le> length (cameras_of ?d)"
    and s: "saved_poses st = map (\<lambda>q. position (snd q)) (drop n (cameras_of ?d))"
    and ids: "\<forall>q \<in> set (drop n (cameras_of ?d)). fst q < next_view_id ?d"
    by (simp_all add: ingest_invariant_def Let_def)
  have vid: "vid = next_view_id ?d"
    using a(1) by simp
  from a(8) obtain cam F where
    cams: "cameras_of (recon_calib_dataset c2) =
            map (\<lambda>q. if fst q = vid then F q else q) (cameras_of ?d) @ [(vid, cam)]"
    and pos: "position cam = init_position r"
    by auto
  have same: "map (\<lambda>q. if fst q = vid then F q else q) (drop n (cameras_of ?d))
                = drop n (cameras_of ?d)"
    by (rule map_idI) (use ids vid in auto)
  have dr: "drop n (cameras_of (recon_calib_dataset ?c3)) = drop n (cameras_of ?d) @ [(vid, cam)]"
    using n by (simp add: o(7) cams drop_map same)
  have nx: "next_view_id (recon_calib_dataset ?c3) = Suc vid"
    using o(6) a(2) by simp
  have len: "n \<le> length (cameras_of (recon_calib_dataset ?c3))"
    using n by (simp add: o(7) cams)
  show ?thesis
    unfolding ingest_invariant_def Let_def c sp
    using len dr nx s ids vid pos by auto
qed

lemma ingest_views_invariant:
  assumes "ingest_invariant n st"
    and "ingest_views X w h st frames = Inr st'"
  shows "ingest_invariant n st'"
  using assms
proof (induction frames arbitrary: st)
  case Nil
  then show ?case
    by simp
next
  case (Cons v frames)
  from Cons.prems(2) obtain st1 where p: "process_view X w h st v = Inr st1"
    and r: "ingest_views X w h st1 frames = Inr st'"
    by (cases "process_view X w h st v") simp_all
  from Cons.IH [OF process_view_invariant [OF Cons.prems(1) p] r] show ?case .
qed

lemma ingest_views_config_all:
  assumes "ingest_views X w h st frames = Inr st'"
  shows "camera_model (calib st') = camera_model (calib st) \<and>
    grid_size (calib st') = grid_size (calib st) \<and>
    min_num_view (calib st') = min_num_view (calib st) \<and>
    tracks (recon_calib_dataset (calib st')) = tracks (recon_calib_dataset (calib st)) \<and>
    views_initialized st' = views_initialized st + length frames"
  using assms
proof (induction frames arbitrary: st)
  case Nil
  then show ?case
    by simp
next
  case (Cons v frames)
  from Cons.prems obtain st1 where p: "process_view X w h st v = Inr st1"
    and r: "ingest_views X w h st1 frames = Inr st'"
    by (cases "process_view X w h st v") simp_all
  from Cons.IH [OF r] process_view_config [OF p] show ?case
    by simp
qed

lemma ingest_views_config:
  assumes "ingest_views X w h st frames = Inr st'"
  shows "camera_model (calib st') = camera_model (calib st)"
    and "grid_size (calib st') = grid_size (calib st)"
    and "min_num_view (calib st') = min_num_view (calib st)"
    and "tracks (recon_calib_dataset (calib st')) = tracks (recon_calib_dataset (calib st))"
    and "views_initialized st' = views_initialized st + length frames"
  using ingest_views_config_all [OF assms] by simp_all

lemma ingest_invariant_start:
  assumes "saved_poses st = []"
  shows "ingest_invariant (NumViews (recon_calib_dataset (calib st))) st"
  using assms by (simp add: ingest_invariant_def NumViews_cameras)

lemma build_correspondences_tracks:
  assumes "tracks d' = tracks d"
  shows "build_correspondences d' px py pts = build_correspondences d px py pts"
  using assms by (induction pts) (auto simp add: Track_of_def split: option.splits sum.splits)

lemma initialize_view_cong:
  assumes "tracks (recon_calib_dataset c') = tracks (recon_calib_dataset c)"
    and "camera_model c' = camera_model c"
    and "frame_ransac_params X c' h = frame_ransac_params X c h"
  shows "initialize_view X w h c' view = initialize_view X w h c view"
  using assms
  by (simp add: initialize_view_def build_correspondences_tracks [OF assms(1)]
      split: sum.splits)

lemma frame_ransac_params_idem:
  assumes "ransac_params c' = frame_ransac_params X c h"
  shows "frame_ransac_params X c' h = frame_ransac_params X c h"
  using assms by (simp add: frame_ransac_params_def)

lemma ingest_views_frame_ransac_params:
  assumes "ingest_views X w h st frames = Inr st'"
  shows "frame_ransac_params X (calib st') h = frame_ransac_params X (calib st) h"
  using assms
proof (induction frames arbitrary: st)
  case Nil
  then show ?case
    by simp
next
  case (Cons v frames)
  from Cons.prems obtain st1 where p: "process_view X w h st v = Inr st1"
    and r: "ingest_views X w h st1 frames = Inr st'"
    by (cases "process_view X w h st v") simp_all
  from Cons.IH [OF r] frame_ransac_params_idem [OF process_view_config(5) [OF p]] show ?case
    by simp
qed

lemma ingest_views_initialize_view:
  assumes "ingest_views X w h st frames = Inr st'"
  shows "initialize_view X w h (calib st') view = initialize_view X w h (calib st) view"
  by (rule initialize_view_cong [OF ingest_views_config(4) [OF assms]
        ingest_views_config(1) [OF assms] ingest_views_frame_ransac_params [OF assms]])


lemma process_view_accept:
  assumes init: "initialize_view X w h (calib st) view = Inr r"
    and nc: "\<not> close_pose_present X (grid_size (calib st)) (init_position r) (saved_poses st)"
    and ok: "success_init r"
    and known: "StringToCameraIntrinsicsModelType (camera_model (calib st)) = Some t"
  shows "\<exists>st'. process_view X w h st view = Inr st' \<and>
           saved_poses st' = saved_poses st @ [init_position r] \<and>
           NumViews (recon_calib_dataset (calib st')) =
             NumViews (recon_calib_dataset (calib st)) + 1"
proof -
  let ?c1 = "(calib st)\<lparr>ransac_params := frame_ransac_params X (calib st) h\<rparr>"
  have "StringToCameraIntrinsicsModelType (camera_model ?c1) = Some t"
    using known by simp
  from AddView_defined [OF this] obtain vid c2 where
    av: "AddView X (rotation r) (init_position r) (focal_length r) (radial_distortion r)
           w h (timestamp_us view * 0.000001) (default_group_id X) ?c1 = Inr (vid, c2)"
    by blast
  let ?c3 = "foldl (\<lambda>c' (i, corner). snd (AddObservation vid i corner c')) c2 (image_points view)"
  note a = AddView_result [OF av]
  note o = observation_free_eqD [OF observation_free_foldl_AddObservation [of vid c2 "image_points view"]]
  from a(8) obtain cam F where
    cams: "cameras_of (recon_calib_dataset c2) =
            map (\<lambda>q. if fst q = vid then F q else q)
              (cameras_of (recon_calib_dataset (calib st))) @ [(vid, cam)]"
    by auto
  have "NumViews (recon_calib_dataset ?c3) = NumViews (recon_calib_dataset (calib st)) + 1"
    by (simp add: NumViews_cameras o(7) cams)
  with process_view_take [OF init nc ok av] show ?thesis
    by simp
qed

lemma process_view_views_initialized:
  "process_view X w h (st\<lparr>views_initialized := k\<rparr>) view =
     map_sum id (\<lambda>t. t\<lparr>views_initialized := Suc k\<rparr>) (process_view X w h st view)"
  by (simp add: process_view_def Let_def split: sum.splits prod.splits)

lemma ingest_views_views_initialized:
  "ingest_views X w h (st\<lparr>views_initialized := k\<rparr>) frames =
     map_sum id (\<lambda>t. t\<lparr>views_initialized := k + length frames\<rparr>) (ingest_views X w h st frames)"
proof (induction frames arbitrary: st k)
  case Nil
  show ?case
    by simp
next
  case (Cons v frames)
  show ?case
  proof (cases "process_view X w h st v")
    case (Inl e)
    then show ?thesis
      by (simp add: process_view_views_initialized)
  next
    case (Inr st1)
    then show ?thesis
      by (simp add: process_view_views_initialized Cons.IH)
  qed
qed

lemma outcome_views_initialized:
  "outcome (map_sum id (\<lambda>t. t\<lparr>views_initialized := k\<rparr>) x) = outcome x"
  by (cases x) (simp_all add: outcome_def)

lemma process_view_ransac_params:
  "process_view X w h (st\<lparr>calib := (calib st)\<lparr>ransac_params :=
       frame_ransac_params X (calib st) h\<rparr>\<rparr>) view = process_view X w h st view"
proof -
  let ?c = "(calib st)\<lparr>ransac_params := frame_ransac_params X (calib st) h\<rparr>"
  have f: "frame_ransac_params X ?c h = frame_ransac_params X (calib st) h"
    by (rule frame_ransac_params_idem) simp
  have i: "initialize_view X w h ?c view = initialize_view X w h (calib st) view"
    by (rule initialize_view_cong [OF _ _ f]) simp_all
  show ?thesis
  proof (cases "initialize_view X w h (calib st) view")
    case (Inl e)
    then show ?thesis
      by (simp add: process_view_def i)
  next
    case (Inr r)
    then show ?thesis
      by (simp add: process_view_def i f Let_def split: sum.splits prod.splits)
  qed
qed

lemma outcome_ingest_views_ransac_params:
  "outcome (ingest_views X w h (st\<lparr>calib := (calib st)\<lparr>ransac_params :=
       frame_ransac_params X (calib st) h\<rparr>\<rparr>) frames) = outcome (ingest_views X w h st frames)"
  by (cases frames) (simp_all add: outcome_def process_view_ransac_params)

lemma outcome_skipped_state:
  "outcome (ingest_views X w h
      (st\<lparr>calib := (calib st)\<lparr>ransac_params := frame_ransac_params X (calib st) h\<rparr>,
          views_initialized := k\<rparr>) frames) = outcome (ingest_views X w h st frames)"
proof -
  have "st\<lparr>calib := (calib st)\<lparr>ransac_params := frame_ransac_params X (calib st) h\<rparr>,
          views_initialized := k\<rparr> =
        (st\<lparr>calib := (calib st)\<lparr>ransac_params := frame_ransac_params X (calib st) h\<rparr>\<rparr>)
          \<lparr>views_initialized := k\<rparr>"
    by simp
  then show ?thesis
    by (simp only: ingest_views_views_initialized outcome_views_initialized
        outcome_ingest_views_ransac_params)
qed



lemma norm3_z: "norm3 (0, 0, z) = \<bar>z\<bar>"
  by (simp add: norm3_def)

lemma sample_start_fields:
  "saved_poses (sample_start g) = []"
  "NumViews (recon_calib_dataset (calib (sample_start g))) = 0"
  "grid_size (calib (sample_start g)) = g"
  "camera_model (calib (sample_start g)) = ''PINHOLE''"
  "StringToCameraIntrinsicsModelType (camera_model (calib (sample_start g))) = Some PINHOLE"
  by (simp_all add: sample_start_def empty_calibrator_def CameraCalibrator_new_def
      sample_dataset_def NumViews_def StringToCameraIntrinsicsModelType_def)

lemma sample_initialize_view:
  "initialize_view sample_collaborators 1920 1080 (calib (sample_start g)) (sample_frame t 0) =
     Inr \<lparr>success_init = True, rotation = ((1, 0, 0), (0, 1, 0), (0, 0, 1)),
          init_position = (0, 0, 0), focal_length = 800, radial_distortion = 0\<rparr>"
  "initialize_view sample_collaborators 1920 1080 (calib (sample_start g)) (sample_frame t 1) =
     Inr \<lparr>success_init = True, rotation = ((1, 0, 0), (0, 1, 0), (0, 0, 1)),
          init_position = (0, 0, 0.0005), focal_length = 800, radial_distortion = 0\<rparr>"
  by (simp_all add: initialize_view_def initialize_camera_def sample_start_def
      empty_calibrator_def CameraCalibrator_new_def sample_dataset_def sample_frame_def
      Track_of_def hnormalized_def sample_collaborators_def sample_camera_def)

lemma sample_distance:
  "difference_norm sample_collaborators (0, 0, a) (0, 0, b) = \<bar>a - b\<bar>"
  by (simp add: sample_collaborators_def minus3_def norm3_z)

lemma PINHOLE_known: "StringToCameraIntrinsicsModelType ''PINHOLE'' = Some PINHOLE"
  by (simp add: StringToCameraIntrinsicsModelType_def)


section \<open>Claims about the reported intrinsics\<close>














section \<open>Claims about the ingestion of frames\<close>



text \<open>
  C9. During the ingestion of \<^verbatim>\<open>CalibrateCameraFromJson\<close>, which starts with no saved
  position, the saved positions are exactly the camera positions of the views added to
  the dataset since the start, in order. A frame whose initialisation failed, or that is
  closer than the grid spacing to a saved position, leaves the dataset (views and
  observations) and the saved positions as they are, and the frames after it leave the
  same dataset and saved positions as they would without it. A frame that is accepted
  adds one view and its one position.
\<close>

theorem saved_poses_are_accepted_positions:
  "(saved_poses st0 = [] \<and> ingest_views X w h st0 frames = Inr st \<longrightarrow>
      NumViews (recon_calib_dataset (calib st0)) \<le> NumViews (recon_calib_dataset (calib st)) \<and>
      saved_poses st = accepted_positions (NumViews (recon_calib_dataset (calib st0))) st) \<and>
   (initialize_view X w h (calib st) view = Inr r \<and>
    (\<not> success_init r \<or>
     close_pose_present X (grid_size (calib st)) (init_position r) (saved_poses st)) \<longrightarrow>
      process_view X w h st view =
        Inr (st\<lparr>calib := (calib st)\<lparr>ransac_params := frame_ransac_params X (calib st) h\<rparr>,
                views_initialized := views_initialized st + 1\<rparr>) \<and>
      outcome (ingest_views X w h st (view # rest)) = outcome (ingest_views X w h st rest)) \<and>
   (initialize_view X w h (calib sa) va = Inr ra \<and> success_init ra \<and>
    \<not> close_pose_present X (grid_size (calib sa)) (init_position ra) (saved_poses sa) \<and>
    StringToCameraIntrinsicsModelType (camera_model (calib sa)) = Some t \<longrightarrow>
      (\<exists>st'. process_view X w h sa va = Inr st' \<and>
         saved_poses st' = saved_poses sa @ [init_position ra] \<and>
         NumViews (recon_calib_dataset (calib st')) =
           NumViews (recon_calib_dataset (calib sa)) + 1))"
proof (intro conjI impI)
  assume a: "saved_poses st0 = [] \<and> ingest_views X w h st0 frames = Inr st"
  let ?n = "NumViews (recon_calib_dataset (calib st0))"
  from a have inv: "ingest_invariant ?n st"
    using ingest_views_invariant [OF ingest_invariant_start] by blast
  then show "?n \<le> NumViews (recon_calib_dataset (calib st))"
    by (simp add: ingest_invariant_def NumViews_cameras Let_def)
  from inv show "saved_poses st = accepted_positions ?n st"
    by (simp add: ingest_invariant_def accepted_positions_cameras Let_def)
next
  assume a: "initialize_view X w h (calib st) view = Inr r \<and>
    (\<not> success_init r \<or>
     close_pose_present X (grid_size (calib st)) (init_position r) (saved_poses st))"
  then have i: "initialize_view X w h (calib st) view = Inr r"
    and c: "close_pose_present X (grid_size (calib st)) (init_position r) (saved_poses st)
             \<or> \<not> success_init r"
    by blast+
  show p: "process_view X w h st view =
        Inr (st\<lparr>calib := (calib st)\<lparr>ransac_params := frame_ransac_params X (calib st) h\<rparr>,
                views_initialized := views_initialized st + 1\<rparr>)"
    by (rule process_view_skip [OF i c])
  show "outcome (ingest_views X w h st (view # rest)) = outcome (ingest_views X w h st rest)"
    by (simp add: p outcome_skipped_state del: One_nat_def)
next
  assume "initialize_view X w h (calib sa) va = Inr ra \<and> success_init ra \<and>
    \<not> close_pose_present X (grid_size (calib sa)) (init_position ra) (saved_poses sa) \<and>
    StringToCameraIntrinsicsModelType (camera_model (calib sa)) = Some t"
  then have "initialize_view X w h (calib sa) va = Inr ra"
    "\<not> close_pose_present X (grid_size (calib sa)) (init_position ra) (saved_poses sa)"
    "success_init ra" "StringToCameraIntrinsicsModelType (camera_model (calib sa)) = Some t"
    by simp_all
  then show "\<exists>st'. process_view X w h sa va = Inr st' \<and>
         saved_poses st' = saved_poses sa @ [init_position ra] \<and>
         NumViews (recon_calib_dataset (calib st')) =
           NumViews (recon_calib_dataset (calib sa)) + 1"
    by (rule process_view_accept)
qed

theorem saved_poses_are_accepted_positions_witness:
  "\<exists>st1. ingest_views sample_collaborators 1920 1080 (sample_start 0.01) [sample_frame 0 0]
            = Inr st1 \<and>
     saved_poses st1 = [(0, 0, 0)] \<and>
     accepted_positions 0 st1 = [(0, 0, 0)] \<and>
     NumViews (recon_calib_dataset (calib st1)) = 1 \<and>
     process_view sample_collaborators 1920 1080 st1 (sample_frame 33333 1) =
       Inr (st1\<lparr>calib := (calib st1)\<lparr>ransac_params :=
                     frame_ransac_params sample_collaborators (calib st1) 1080\<rparr>,
                views_initialized := views_initialized st1 + 1\<rparr>) \<and>
     outcome (ingest_views sample_collaborators 1920 1080 st1
                [sample_frame 33333 1, sample_frame 66666 0]) =
     outcome (ingest_views sample_collaborators 1920 1080 st1 [sample_frame 66666 0])"
proof -
  let ?X = sample_collaborators
  let ?s = "sample_start 0.01"
  let ?f1 = "sample_frame 0 0" and ?f2 = "sample_frame 33333 1"
  let ?r1 = "\<lparr>success_init = True, rotation = ((1, 0, 0), (0, 1, 0), (0, 0, 1)),
          init_position = (0, 0, 0), focal_length = 800, radial_distortion = 0\<rparr>"
  let ?r2 = "\<lparr>success_init = True, rotation = ((1, 0, 0), (0, 1, 0), (0, 0, 1)),
          init_position = (0, 0, 0.0005), focal_length = 800, radial_distortion = 0\<rparr>"
  have i: "initialize_view ?X 1920 1080 (calib ?s) ?f1 = Inr ?r1"
    "initialize_view ?X 1920 1080 (calib ?s) ?f2 = Inr ?r2"
    by (rule sample_initialize_view)+
  have k: "StringToCameraIntrinsicsModelType (camera_model (calib ?s)) = Some PINHOLE"
    by (rule sample_start_fields)
  have s: "saved_poses ?s = []"
    by (rule sample_start_fields)
  have n: "NumViews (recon_calib_dataset (calib ?s)) = 0"
    by (rule sample_start_fields)
  have ok: "success_init ?r1"
    by simp
  have nc: "\<not> close_pose_present ?X (grid_size (calib ?s)) (init_position ?r1) (saved_poses ?s)"
    by (simp add: sample_start_fields close_pose_present_def)
  note T = saved_poses_are_accepted_positions [where X = ?X and w = 1920 and h = 1080
      and ?st0.0 = ?s and frames = "[?f1]" and view = ?f2 and r = ?r2
      and rest = "[sample_frame 66666 0]" and sa = ?s and va = ?f1 and ra = ?r1 and t = PINHOLE]
  from T [THEN conjunct2, THEN conjunct2, THEN mp] i(1) ok nc k
  have "\<exists>st'. process_view ?X 1920 1080 ?s ?f1 = Inr st' \<and>
         saved_poses st' = saved_poses ?s @ [init_position ?r1] \<and>
         NumViews (recon_calib_dataset (calib st')) =
           NumViews (recon_calib_dataset (calib ?s)) + 1"
    by (simp only: simp_thms)
  then obtain st1 where p1: "process_view ?X 1920 1080 ?s ?f1 = Inr st1"
    and s1: "saved_poses st1 = [(0, 0, 0)]"
    and n1: "NumViews (recon_calib_dataset (calib st1)) = 1"
    unfolding s n by auto
  have pre1: "ingest_views ?X 1920 1080 ?s [?f1] = Inr st1"
    using p1 by simp
  from T [where st = st1, THEN conjunct1, THEN mp] s pre1
  have a1: "saved_poses st1 = accepted_positions 0 st1"
    unfolding n by simp
  have g: "grid_size (calib st1) = 0.01"
    using ingest_views_config(2) [OF pre1] by (simp add: sample_start_fields)
  have i2: "initialize_view ?X 1920 1080 (calib st1) ?f2 = Inr ?r2"
    using ingest_views_initialize_view [OF pre1] i(2) by simp
  have c2: "close_pose_present ?X (grid_size (calib st1)) (init_position ?r2) (saved_poses st1)"
    by (simp add: g s1 close_pose_present_def sample_distance)
  from T [where st = st1, THEN conjunct2, THEN conjunct1, THEN mp] i2 c2
  have "process_view ?X 1920 1080 st1 ?f2 =
        Inr (st1\<lparr>calib := (calib st1)\<lparr>ransac_params :=
                     frame_ransac_params ?X (calib st1) 1080\<rparr>,
                views_initialized := views_initialized st1 + 1\<rparr>) \<and>
      outcome (ingest_views ?X 1920 1080 st1 [?f2, sample_frame 66666 0]) =
      outcome (ingest_views ?X 1920 1080 st1 [sample_frame 66666 0])"
    by (simp only: simp_thms)
  with pre1 s1 a1 n1 show ?thesis
    by (intro exI [of _ st1]) (simp del: ingest_views.simps One_nat_def)
qed

end
